(* ===== verification/Prelude.thy ===== *)
theory Prelude
  imports Main "HOL-Library.Word"
begin

text \<open>
  Shared vocabulary of the development: the lemma collections the component
  theories fill, Rust's fallible list indexing, the byte-string operations the
  source calls on \<open>String\<close> values (\<open>starts_with\<close>, \<open>replace\<close>) and the
  decimal rendering of integers used by the \<open>Display\<close> of spreadsheet cells.
  Strings are byte strings (\<open>char\<close> is a byte in Isabelle/HOL), as a Rust
  \<open>String\<close> is a UTF-8 byte sequence.
\<close>

named_theorems frame_simps "facts that an operation leaves a part of the state unchanged"

type_synonym path = string

subsection \<open>Rust's \<open>?\<close> operator on results\<close>

text \<open>A \<open>Result<T, E>\<close> is \<open>'e + 't\<close>, with \<open>Inl\<close> the error.\<close>

fun ok_bind :: "'e + 'a \<Rightarrow> ('a \<Rightarrow> 'e + 'b) \<Rightarrow> 'e + 'b" where
  "ok_bind (Inl e) f = Inl e"
| "ok_bind (Inr a) f = f a"

subsection \<open>Indexing: \<open>v[i]\<close> panics out of range\<close>

text \<open>
  \<open>v[i]\<close> on a Rust slice panics with "index out of bounds: the len is
  \<open>len\<close> but the index is \<open>i\<close>"; the error value records both numbers.
\<close>

definition nth_checked :: "'a list \<Rightarrow> nat \<Rightarrow> (nat \<times> nat) + 'a" where
  "nth_checked xs i = (if i < length xs then Inr (xs ! i) else Inl (i, length xs))"

subsection \<open>\<open>str::starts_with\<close>\<close>

fun starts_with :: "string \<Rightarrow> string \<Rightarrow> bool" where
  "starts_with s [] = True"
| "starts_with [] (c # cs) = False"
| "starts_with (x # xs) (c # cs) = (x = c \<and> starts_with xs cs)"

subsection \<open>\<open>str::replace\<close>\<close>

text \<open>
  \<open>s.replace(from, to)\<close> copies \<open>s\<close>, replacing every non-overlapping
  occurrence of \<open>from\<close>, scanning left to right, by \<open>to\<close>. The scan below
  consumes the matched bytes at once. For the empty pattern Rust inserts \<open>to\<close>
  at every character boundary; the model inserts it at every byte boundary,
  which agrees on ASCII text (the source only replaces \<open>"\n"\<close>).
\<close>

function str_replace :: "string \<Rightarrow> string \<Rightarrow> string \<Rightarrow> string" where
  "str_replace [] r s = r @ concat (map (\<lambda>c. c # r) s)"
| "str_replace (p # ps) r [] = []"
| "str_replace (p # ps) r (c # cs) =
     (if starts_with (c # cs) (p # ps) then r @ str_replace (p # ps) r (drop (length ps) cs)
      else c # str_replace (p # ps) r cs)"
  by pat_completeness auto
termination
  by (relation "measure (\<lambda>(p, r, s). length s)") auto

text \<open>The reference reading of a one-byte pattern: each byte is mapped on its own.\<close>

definition subst_byte :: "char \<Rightarrow> string \<Rightarrow> string \<Rightarrow> string" where
  "subst_byte c r s = concat (map (\<lambda>x. if x = c then r else [x]) s)"

subsection \<open>Decimal rendering of integers (\<open>Display\<close> for \<open>i64\<close>)\<close>

definition decimal_digits :: string where
  "decimal_digits = ''0123456789''"

definition digit_char :: "nat \<Rightarrow> char" where
  "digit_char d = decimal_digits ! d"

fun show_nat :: "nat \<Rightarrow> string" where
  "show_nat n = (if n < 10 then [digit_char n] else show_nat (n div 10) @ [digit_char (n mod 10)])"

declare show_nat.simps [simp del]

definition show_int :: "int \<Rightarrow> string" where
  "show_int i = (if i < 0 then CHR ''-'' # show_nat (nat (- i)) else show_nat (nat i))"

lemma ok_bind_eq_Inr [simp]:
  "ok_bind m f = Inr b \<longleftrightarrow> (\<exists>a. m = Inr a \<and> f a = Inr b)"
  by (cases m) auto

lemma ok_bind_eq_Inl [simp]:
  "ok_bind m f = Inl e \<longleftrightarrow> m = Inl e \<or> (\<exists>a. m = Inr a \<and> f a = Inl e)"
  by (cases m) auto

lemma nth_checked_in [simp]: "i < length xs \<Longrightarrow> nth_checked xs i = Inr (xs ! i)"
  by (simp add: nth_checked_def)

lemma nth_checked_out [simp]: "\<not> i < length xs \<Longrightarrow> nth_checked xs i = Inl (i, length xs)"
  by (simp add: nth_checked_def)

lemma starts_with_iff: "starts_with s p \<longleftrightarrow> (\<exists>r. s = p @ r)"
  by (induction s p rule: starts_with.induct) auto

lemma starts_with_append [simp]: "starts_with (p @ r) p"
  by (simp add: starts_with_iff)

lemma subst_byte_simps [simp]:
  "subst_byte c r [] = []"
  "subst_byte c r (x # xs) = (if x = c then r else [x]) @ subst_byte c r xs"
  "subst_byte c r (xs @ ys) = subst_byte c r xs @ subst_byte c r ys"
  by (simp_all add: subst_byte_def)

lemma str_replace_single_byte: "str_replace [c] r s = subst_byte c r s"
  by (induction s) auto

lemma str_replace_match [simp]:
  "str_replace (p # ps) r ((p # ps) @ t) = r @ str_replace (p # ps) r t"
  by simp

lemma str_replace_nomatch [simp]:
  "x \<noteq> p \<Longrightarrow> str_replace (p # ps) r (x # t) = x # str_replace (p # ps) r t"
  by simp

lemma subst_byte_absent: "c \<notin> set s \<Longrightarrow> subst_byte c r s = s"
  by (induction s) auto

end
