(* ===== verification/Data.thy ===== *)
theory Data
  imports Prelude
begin

text \<open>
  The data of \<^verbatim>\<open>src/src/code.rs\<close>: the structs \<open>Code\<close>, \<open>CodeTemplate\<close> and
  \<open>Input\<close> as records, the spreadsheet cell type of the \<open>calamine\<close> crate
  and its \<open>Display\<close> (the \<open>to_string\<close> the source calls on every cell), the
  errors and panics of the program, and the interface of the three libraries the
  program calls but does not implement (JSON decoding, workbook decoding, template
  rendering).
\<close>

subsection \<open>Spreadsheet cells\<close>

text \<open>
  A cell of a \<open>calamine\<close> range. An \<open>i64\<close> is a \<open>64 word\<close> read as two's
  complement. The \<open>f64\<close>-valued cells (\<open>Float\<close>, \<open>DateTime\<close>) carry the text
  that Rust's \<open>f64\<close> \<open>Display\<close> prints for them: the shortest decimal that reads
  back to the same float, which this development does not reimplement.
\<close>

datatype cell_error_type = Div0 | NA | Name | Null | Num | Ref | Value | GettingData

datatype data =
    Int64 "64 word"
  | Float string
  | String string
  | Bool bool
  | DateTime string
  | DateTimeIso string
  | DurationIso string
  | Error cell_error_type
  | Empty

fun cell_error_to_string :: "cell_error_type \<Rightarrow> string" where
  "cell_error_to_string Div0 = ''#DIV/0!''"
| "cell_error_to_string NA = ''#N/A''"
| "cell_error_to_string Name = ''#NAME?''"
| "cell_error_to_string Null = ''#NULL!''"
| "cell_error_to_string Num = ''#NUM!''"
| "cell_error_to_string Ref = ''#REF!''"
| "cell_error_to_string Value = ''#VALUE!''"
| "cell_error_to_string GettingData = ''#DATA!''"

fun data_to_string :: "data \<Rightarrow> string" where
  "data_to_string (Int64 i) = show_int (sint i)"
| "data_to_string (Float f) = f"
| "data_to_string (String s) = s"
| "data_to_string (Bool b) = (if b then ''true'' else ''false'')"
| "data_to_string (DateTime f) = f"
| "data_to_string (DateTimeIso s) = s"
| "data_to_string (DurationIso s) = s"
| "data_to_string (Error e) = cell_error_to_string e"
| "data_to_string Empty = []"

text \<open>A range of a worksheet, row by row; a workbook is its list of named sheets.\<close>

type_synonym range = "data list list"
type_synonym workbook = "(string \<times> range) list"

subsection \<open>The source's structs\<close>

text \<open>
  \<open>Code\<close> is declared (a serde row type with the columns \<open>##var\<close>, \<open>type\<close>,
  \<open>remark\<close>) but never used by the program.
\<close>

record code =
  var :: "string option"
  type_name :: "string option"
  remark :: "string option"

type_synonym field_tuple = "string \<times> string \<times> string"

record code_template =
  template_namespace :: string
  classname :: string
  tuples :: "field_tuple list"

record input =
  headers :: "string list"
  work_sheet_name :: string
  class_name :: string
  in_path :: path
  out_path :: path
  namespace :: string

subsection \<open>Errors and panics\<close>

text \<open>
  The errors a \<open>Result\<close> of the program carries (\<open>Box<dyn Error>\<close>): an I/O
  error on a path, a JSON decoding error, a workbook decoding error, the message
  error built at line 61, and a template error. A panic aborts the thread: an
  index out of bounds (index, length) or \<open>unwrap\<close> of an error.
\<close>

datatype error =
    IoError path
  | JsonError
  | XlsxError
  | CalamineMsg string
  | RenderError

datatype panic = IndexOutOfBounds nat nat | Unwrap error

datatype failure = Err error | Panic panic

type_synonym 'a res = "failure + 'a"

definition index :: "'a list \<Rightarrow> nat \<Rightarrow> 'a res" where
  "index xs i = (case nth_checked xs i of Inl (j, n) \<Rightarrow> Inl (Panic (IndexOutOfBounds j n)) | Inr x \<Rightarrow> Inr x)"

text \<open>\<open>Result::unwrap\<close>: an error becomes a panic; a panic stays one.\<close>

fun unwrap :: "error + 'a \<Rightarrow> 'a res" where
  "unwrap (Inl e) = Inl (Panic (Unwrap e))"
| "unwrap (Inr a) = Inr a"

fun unwrap_res :: "'a res \<Rightarrow> 'a res" where
  "unwrap_res (Inl (Err e)) = Inl (Panic (Unwrap e))"
| "unwrap_res r = r"

subsection \<open>The libraries the program calls\<close>

text \<open>
  \<open>serde_json::from_str::<Vec<Input>>\<close>, the decoding step of
  \<open>calamine::open_workbook\<close> and \<open>askama\<close>'s \<open>Template::render\<close> are
  external. The model takes them as a record of functions, \<open>None\<close> where the
  library returns an error; every theorem of the development holds for all of
  them unless it names a hypothesis about one.
\<close>

record libs =
  parse_inputs :: "string \<Rightarrow> input list option"
  parse_xlsx :: "string \<Rightarrow> workbook option"
  render :: "code_template \<Rightarrow> string option"

lemma index_in [simp]: "i < length xs \<Longrightarrow> index xs i = Inr (xs ! i)"
  by (simp add: index_def)

lemma index_out [simp]: "\<not> i < length xs \<Longrightarrow> index xs i = Inl (Panic (IndexOutOfBounds i (length xs)))"
  by (simp add: index_def)

end
