(* ===== verification/World.thy ===== *)
theory World
  imports Data
begin

text \<open>
  The part of the operating system the program touches: a file system mapping
  paths to byte contents, the set of paths where the OS refuses to delete or
  create a file (permissions, a missing parent directory), and standard output.
  Each \<open>std\<close> call the source makes is one operation that takes the world and
  returns its result with the new world, as in a state monad written out.
\<close>

datatype log = LogInputs "input list" | LogLine string

record world =
  files :: "path \<rightharpoonup> string"
  denied :: "path set"
  stdout :: "log list"

type_synonym 'a io = "world \<Rightarrow> (error + 'a) \<times> world"

text \<open>\<open>fs::read_to_string\<close>: the contents, or an I/O error when there is no file.\<close>

definition read_to_string :: "path \<Rightarrow> world \<Rightarrow> error + string" where
  "read_to_string p w = (case files w p of None \<Rightarrow> Inl (IoError p) | Some s \<Rightarrow> Inr s)"

text \<open>\<open>Path::exists\<close>.\<close>

definition path_exists :: "path \<Rightarrow> world \<Rightarrow> bool" where
  "path_exists p w \<longleftrightarrow> p \<in> dom (files w)"

text \<open>\<open>fs::remove_file\<close>: fails on a missing file or a denied path.\<close>

definition remove_file :: "path \<Rightarrow> unit io" where
  "remove_file p w =
     (if p \<in> denied w \<or> files w p = None then (Inl (IoError p), w)
      else (Inr (), w\<lparr>files := (files w)(p := None)\<rparr>))"

text \<open>\<open>File::create\<close>: opens for writing, creating the file or truncating it.\<close>

definition file_create :: "path \<Rightarrow> unit io" where
  "file_create p w =
     (if p \<in> denied w then (Inl (IoError p), w)
      else (Inr (), w\<lparr>files := (files w)(p \<mapsto> [])\<rparr>))"

text \<open>\<open>Write::write_all\<close> on the handle of an open file: appends at the cursor.\<close>

definition write_all :: "path \<Rightarrow> string \<Rightarrow> unit io" where
  "write_all p s w =
     (case files w p of
        None \<Rightarrow> (Inl (IoError p), w)
      | Some c \<Rightarrow> (Inr (), w\<lparr>files := (files w)(p \<mapsto> c @ s)\<rparr>))"

text \<open>\<open>println!\<close>.\<close>

definition println :: "log \<Rightarrow> world \<Rightarrow> world" where
  "println l w = w\<lparr>stdout := stdout w @ [l]\<rparr>"

end
