(* ===== verification/Sheet.thy ===== *)
theory Sheet
  imports World
begin

text \<open>
  SheetExtractor: lines 55--73 of \<^verbatim>\<open>handle_input\<close>. Open the workbook at the
  job's input path, find the named worksheet, read the first row of its range as
  the header row and collect the column positions whose header text is one of the
  job's declared header names.
\<close>

text \<open>
  \<open>open_workbook(in_path)?\<close>: read the file and decode it; a missing file is an
  I/O error, a file the decoder rejects a workbook error.
\<close>

definition open_workbook :: "libs \<Rightarrow> path \<Rightarrow> world \<Rightarrow> error + workbook" where
  "open_workbook L p w =
     ok_bind (read_to_string p w)
       (\<lambda>s. case parse_xlsx L s of None \<Rightarrow> Inl XlsxError | Some wb \<Rightarrow> Inr wb)"

text \<open>
  \<open>worksheet_range(name).map_err(|_| Msg("Cannot find Sheet1"))?\<close>: the first
  sheet of that name; any failure is reported with the fixed message, whatever
  the sheet's name.
\<close>

definition worksheet_range :: "workbook \<Rightarrow> string \<Rightarrow> error + range" where
  "worksheet_range wb name =
     (case map_of wb name of
        None \<Rightarrow> Inl (CalamineMsg ''Cannot find Sheet1'')
      | Some r \<Rightarrow> Inr r)"

text \<open>
  \<open>Range::headers\<close>: the first row, each cell rendered by \<open>to_string\<close>;
  \<open>None\<close> for an empty range.
\<close>

fun range_headers :: "range \<Rightarrow> string list option" where
  "range_headers [] = None"
| "range_headers (row # rows) = Some (map data_to_string row)"

text \<open>
  Lines 63--73: the loop over \<open>range.headers()\<close> (an \<open>Option\<close>, so at most one
  iteration, ended by \<open>break\<close>) keeps the positions, in sheet order, whose text
  is contained in \<open>input.headers\<close>.
\<close>

definition header_cells :: "string list \<Rightarrow> range \<Rightarrow> nat list" where
  "header_cells hs r =
     (case range_headers r of
        None \<Rightarrow> []
      | Some row \<Rightarrow> map fst (filter (\<lambda>(i, x). x \<in> set hs) (enumerate 0 row)))"

text \<open>A \<open>calamine\<close> range is rectangular: every row has the range's width.\<close>

definition rectangular :: "range \<Rightarrow> bool" where
  "rectangular r \<longleftrightarrow> (\<forall>row \<in> set r. length row = length (hd r))"

lemma header_cells_Nil [simp]: "header_cells hs [] = []"
  by (simp add: header_cells_def)

lemma header_cells_Cons:
  "header_cells hs (row # rows) = [i \<leftarrow> [0..<length row]. data_to_string (row ! i) \<in> set hs]"
proof -
  have "map fst (filter (\<lambda>(i, x). x \<in> set hs) (zip [n..<n + length xs] xs)) =
        [i \<leftarrow> [n..<n + length xs]. xs ! (i - n) \<in> set hs]" for n and xs :: "string list"
  proof (induction xs arbitrary: n)
    case Nil
    then show ?case by simp
  next
    case (Cons x xs)
    have "[n..<n + length (x # xs)] = n # [Suc n..<Suc n + length xs]"
      by (simp add: upt_rec)
    moreover have "[i \<leftarrow> [Suc n..<Suc n + length xs]. (x # xs) ! (i - n) \<in> set hs] =
                   [i \<leftarrow> [Suc n..<Suc n + length xs]. xs ! (i - Suc n) \<in> set hs]"
      by (rule filter_cong) (auto simp: nth_Cons')
    ultimately show ?case using Cons.IH[of "Suc n"] by simp
  qed
  from this[of 0 "map data_to_string row"] show ?thesis
    by (auto simp: header_cells_def enumerate_eq_zip intro: filter_cong)
qed

lemma set_header_cells:
  "set (header_cells hs r) = {i. r \<noteq> [] \<and> i < length (hd r) \<and> data_to_string (hd r ! i) \<in> set hs}"
  by (cases r) (auto simp: header_cells_Cons)

lemma sorted_header_cells: "sorted_wrt (<) (header_cells hs r)"
  by (cases r) (auto simp: header_cells_Cons intro: sorted_wrt_filter)

text \<open>
  C16: header matching: the matched columns are exactly the positions of the
  header row whose text is a declared name, each once and in increasing sheet
  order; the declared names count only as a set.
\<close>

theorem header_cells_columns:
  "sorted_wrt (<) (header_cells hs r) \<and>
   set (header_cells hs r) = {i. r \<noteq> [] \<and> i < length (hd r) \<and> data_to_string (hd r ! i) \<in> set hs}"
  by (simp add: sorted_header_cells set_header_cells)

end
