(* ===== verification/Projector.thy ===== *)
theory Projector
  imports Sheet
begin

text \<open>
  RowProjector: lines 75--102 of \<^verbatim>\<open>handle_input\<close>. For every row of the
  range, in order, the loop over the matched column positions collects one string
  per position: at position 0 the sentinel test (\<open>break\<close> on a cell starting
  with \<open>##\<close>) or the fixed token \<open>"string"\<close>, elsewhere the cell's text with
  every line break continued as a documentation comment. Rows that collect
  nothing are dropped; the rest become triples by indexing \<open>x[0]\<close>, \<open>x[1]\<close>,
  \<open>x[2]\<close>. The loops are modelled as the source writes them, with the
  accumulators \<open>collect_row\<close> and \<open>code_tuples\<close>, and then related to a
  declarative reading (\<open>row_values\<close>).
\<close>

definition remark_indent :: string where
  "remark_indent = ''\<newline>        /// ''"

text \<open>Line 89: \<open>.replace("\n", "\n        /// ")\<close>.\<close>

definition remark_text :: "string \<Rightarrow> string" where
  "remark_text s = str_replace ''\<newline>'' remark_indent s"

text \<open>Lines 77--91: the inner loop, with \<open>collect_row\<close> as accumulator.\<close>

fun collect_row :: "string list \<Rightarrow> nat list \<Rightarrow> data list \<Rightarrow> string list res" where
  "collect_row acc [] row = Inr acc"
| "collect_row acc (i # is) row =
     (if i = 0 then
        ok_bind (index row 0) (\<lambda>c.
          if starts_with (data_to_string c) ''##'' then Inr acc
          else collect_row (acc @ [''string'']) is row)
      else
        ok_bind (index row i) (\<lambda>c.
          collect_row (acc @ [remark_text (data_to_string c)]) is row))"

text \<open>Lines 75--97: the outer loop over \<open>range.rows()\<close>, header row included.\<close>

fun project_rows :: "string list list \<Rightarrow> nat list \<Rightarrow> range \<Rightarrow> string list list res" where
  "project_rows code_tuples hc [] = Inr code_tuples"
| "project_rows code_tuples hc (row # rows) =
     ok_bind (collect_row [] hc row) (\<lambda>cr.
       project_rows (if length cr = 0 then code_tuples else code_tuples @ [cr]) hc rows)"

text \<open>Lines 99--102: \<open>(x[0], x[1], x[2])\<close> for every collected row, in order.\<close>

definition to_tuple :: "string list \<Rightarrow> field_tuple res" where
  "to_tuple x =
     ok_bind (index x 0) (\<lambda>a. ok_bind (index x 1) (\<lambda>b. ok_bind (index x 2) (\<lambda>c. Inr (a, b, c))))"

fun collect_tuples :: "string list list \<Rightarrow> field_tuple list res" where
  "collect_tuples [] = Inr []"
| "collect_tuples (x # xs) = ok_bind (to_tuple x) (\<lambda>t. ok_bind (collect_tuples xs) (\<lambda>ts. Inr (t # ts)))"

subsection \<open>The declarative reading\<close>

text \<open>
  What one row contributes, read off the loop: nothing for a row whose cell at a
  matched position 0 is a sentinel, otherwise one string per matched position.
\<close>

definition is_sentinel :: "nat list \<Rightarrow> data list \<Rightarrow> bool" where
  "is_sentinel hc row \<longleftrightarrow> hc \<noteq> [] \<and> hd hc = 0 \<and> starts_with (data_to_string (row ! 0)) ''##''"

definition cell_value :: "data list \<Rightarrow> nat \<Rightarrow> string" where
  "cell_value row i = (if i = 0 then ''string'' else remark_text (data_to_string (row ! i)))"

definition row_values :: "nat list \<Rightarrow> data list \<Rightarrow> string list" where
  "row_values hc row = (if is_sentinel hc row then [] else map (cell_value row) hc)"

definition in_row :: "nat list \<Rightarrow> data list \<Rightarrow> bool" where
  "in_row hc row \<longleftrightarrow> (\<forall>i \<in> set hc. i < length row)"

definition triple_of :: "string list \<Rightarrow> field_tuple" where
  "triple_of x = (x ! 0, x ! 1, x ! 2)"

text \<open>The fields a range yields, by the declarative reading.\<close>

definition fields_spec :: "string list \<Rightarrow> range \<Rightarrow> string list list" where
  "fields_spec hs r = [x \<leftarrow> map (row_values (header_cells hs r)) r. x \<noteq> []]"

text \<open>
  The typing of a sheet for the triple projection: it is a rectangular range, and
  either no row survives or every surviving row has at least three values (three
  matched columns, as every surviving row has one value per matched column).
\<close>

definition wt_sheet :: "string list \<Rightarrow> range \<Rightarrow> bool" where
  "wt_sheet hs r \<longleftrightarrow> rectangular r \<and> (fields_spec hs r = [] \<or> 3 \<le> length (header_cells hs r))"

lemma row_values_positive:
  "\<forall>j \<in> set hc. 0 < j \<Longrightarrow> row_values hc row = map (cell_value row) hc"
  by (cases hc) (auto simp: row_values_def is_sentinel_def)

lemma collect_row_positive:
  assumes "sorted_wrt (<) hc" "\<forall>j \<in> set hc. 0 < j" "in_row hc row"
  shows "collect_row acc hc row = Inr (acc @ map (cell_value row) hc)"
  using assms
  by (induction acc hc row rule: collect_row.induct) (auto simp: in_row_def cell_value_def)

lemma collect_row_row_values:
  assumes "sorted_wrt (<) hc" "in_row hc row"
  shows "collect_row acc hc row = Inr (acc @ row_values hc row)"
proof (cases hc)
  case Nil
  then show ?thesis by (simp add: row_values_def is_sentinel_def)
next
  case (Cons i js)
  with assms have pos: "\<forall>j \<in> set js. 0 < j" and sorted: "sorted_wrt (<) js"
    and inr: "in_row js row" and i: "i < length row"
    by (auto simp: in_row_def)
  have rest: "collect_row acc' js row = Inr (acc' @ map (cell_value row) js)" for acc'
    using sorted pos inr by (rule collect_row_positive)
  show ?thesis
  proof (cases "i = 0")
    case True
    with Cons i rest show ?thesis
      by (auto simp: row_values_def is_sentinel_def cell_value_def)
  next
    case False
    with Cons pos have "\<forall>j \<in> set hc. 0 < j" by auto
    with Cons False i rest show ?thesis
      by (simp add: row_values_positive cell_value_def)
  qed
qed

lemma project_rows_row_values:
  assumes "sorted_wrt (<) hc" "\<forall>row \<in> set r. in_row hc row"
  shows "project_rows ct hc r = Inr (ct @ [x \<leftarrow> map (row_values hc) r. x \<noteq> []])"
  using assms
  by (induction ct hc r rule: project_rows.induct) (auto simp: collect_row_row_values)

lemma to_tuple_ok: "2 < length x \<Longrightarrow> to_tuple x = Inr (triple_of x)"
proof -
  assume "2 < length x"
  then have "0 < length x" "1 < length x" by linarith+
  with \<open>2 < length x\<close> show ?thesis by (simp add: to_tuple_def triple_of_def)
qed

lemma to_tuple_short: "length x < 3 \<Longrightarrow> to_tuple x = Inl (Panic (IndexOutOfBounds (length x) (length x)))"
proof -
  assume "length x < 3"
  then consider "length x = 0" | "length x = 1" | "length x = 2" by linarith
  then show ?thesis by cases (simp_all add: to_tuple_def)
qed

lemma collect_tuples_ok:
  "\<forall>x \<in> set xs. 2 < length x \<Longrightarrow> collect_tuples xs = Inr (map triple_of xs)"
  by (induction xs) (simp_all add: to_tuple_ok)

lemma collect_tuples_short:
  "\<forall>y \<in> set ys. 2 < length y \<Longrightarrow> length x < 3 \<Longrightarrow>
   collect_tuples (ys @ x # zs) = Inl (Panic (IndexOutOfBounds (length x) (length x)))"
  by (induction ys) (simp_all add: to_tuple_ok to_tuple_short)

lemma fields_spec_length: "x \<in> set (fields_spec hs r) \<Longrightarrow> length x = length (header_cells hs r)"
  by (auto simp: fields_spec_def row_values_def split: if_splits)

lemma rectangular_in_row:
  assumes rect: "rectangular r"
  shows "\<forall>row \<in> set r. in_row (header_cells hs r) row"
  unfolding in_row_def
proof (intro ballI)
  fix row i
  assume row: "row \<in> set r" and i: "i \<in> set (header_cells hs r)"
  from i have "i < length (hd r)" by (simp add: set_header_cells)
  with rect row show "i < length row" by (simp add: rectangular_def)
qed

lemma remark_indent_Cons: "remark_indent = CHR ''\<newline>'' # ''        /// ''"
  by (simp add: remark_indent_def)

lemma remark_text_subst: "remark_text s = subst_byte CHR ''\<newline>'' remark_indent s"
  by (simp add: remark_text_def str_replace_single_byte)

lemma collect_row_prefix: "collect_row acc hc row = Inr ys \<Longrightarrow> \<exists>zs. ys = acc @ zs"
proof (induction acc hc row rule: collect_row.induct)
  case (1 acc row)
  then show ?case by simp
next
  case (2 acc i js row)
  then show ?case by (fastforce split: if_splits)
qed

lemma sorted_zero_hd:
  assumes "sorted_wrt (<) (hc :: nat list)" "0 \<in> set hc"
  shows "hc = 0 # tl hc"
proof (cases hc)
  case Nil
  with assms(2) show ?thesis by simp
next
  case (Cons a js)
  with assms have "a = 0 \<or> (\<exists>x \<in> set js. a < x \<and> x = 0)" by auto
  then have "a = 0" by auto
  with Cons show ?thesis by simp
qed

text \<open>C2: the row loop refines the declarative reading on every \<open>calamine\<close> range.\<close>

theorem project_rows_refines:
  "rectangular r \<Longrightarrow> project_rows [] (header_cells hs r) r = Inr (fields_spec hs r)"
  by (simp add: fields_spec_def project_rows_row_values sorted_header_cells rectangular_in_row)

theorem project_rows_refines_witness:
  "rectangular [[String ''##var'', String ''type''], [String ''id'', String ''int'']] \<and>
   project_rows [] (header_cells [''##var'', ''type''] [[String ''##var'', String ''type''], [String ''id'', String ''int'']])
     [[String ''##var'', String ''type''], [String ''id'', String ''int'']] =
   Inr (fields_spec [''##var'', ''type''] [[String ''##var'', String ''type''], [String ''id'', String ''int'']])"
proof -
  have h: "rectangular [[String ''##var'', String ''type''], [String ''id'', String ''int'']]"
    by (simp add: rectangular_def)
  show ?thesis using project_rows_refines [OF h, of "[''##var'', ''type'']"] h by simp
qed

text \<open>C3: a row whose cell at matched column 0 starts with \<open>##\<close> collects nothing.\<close>

theorem collect_row_sentinel:
  assumes "sorted_wrt (<) hc" "0 \<in> set hc" "row \<noteq> []"
    "starts_with (data_to_string (row ! 0)) ''##''"
  shows "collect_row acc hc row = Inr acc"
proof -
  from assms(1,2) have hc: "hc = 0 # tl hc" by (rule sorted_zero_hd)
  from assms(3,4) show ?thesis by (subst hc) simp
qed

theorem collect_row_sentinel_witness:
  "collect_row [] [0, 1, 2] [String ''##legend'', String ''a'', String ''b''] = Inr []"
  by (rule collect_row_sentinel) simp_all

text \<open>
  C4: the name token of every collected row is the literal \<open>"string"\<close>, whatever
  the cell at column 0 holds.
\<close>

theorem name_token_fixed:
  "collect_row [] (0 # js) row = Inr (x # xs) \<Longrightarrow> x = ''string''"
  by (auto split: if_splits dest: collect_row_prefix)

theorem name_token_fixed_witness:
  "collect_row [] [0, 1, 2] [String ''id'', String ''int'', String ''x''] =
     Inr [''string'', ''int'', ''x''] \<and> ''string'' = ''string''"
proof -
  have "collect_row [] [0, 1, 2] [String ''id'', String ''int'', String ''x''] =
          Inr [''string'', ''int'', ''x'']"
    by (simp add: remark_text_def remark_indent_def)
  with name_token_fixed [of "[1, 2]" "[String ''id'', String ''int'', String ''x'']"] show ?thesis
    by simp
qed

text \<open>
  C5: the triples: every collected row yields \<open>(x[0], x[1], x[2])\<close>, unless one
  has fewer than three values, where the first such row panics with index and
  length equal to its length.
\<close>

theorem collect_tuples_spec:
  "collect_tuples xs =
     (case find (\<lambda>x. length x < 3) xs of
        None \<Rightarrow> Inr (map triple_of xs)
      | Some x \<Rightarrow> Inl (Panic (IndexOutOfBounds (length x) (length x))))"
  by (induction xs) (auto simp: to_tuple_ok to_tuple_short split: option.split)

text \<open>C14: the continuation formatting loses nothing: replacing back restores the cell text.\<close>

theorem remark_text_roundtrip: "str_replace remark_indent ''\<newline>'' (remark_text s) = s"
proof -
  have "str_replace remark_indent ''\<newline>'' (subst_byte CHR ''\<newline>'' remark_indent s) = s"
    by (induction s) (simp_all add: remark_indent_Cons)
  then show ?thesis by (simp add: remark_text_subst)
qed

text \<open>C15: a second line is continued with the indentation and \<open>///\<close> marker.\<close>

theorem remark_text_lines:
  "CHR ''\<newline>'' \<notin> set a \<Longrightarrow> remark_text (a @ ''\<newline>'' @ b) = a @ remark_indent @ remark_text b"
  by (simp add: remark_text_subst subst_byte_absent)

theorem remark_text_lines_witness:
  "CHR ''\<newline>'' \<notin> set ''line one'' \<and>
   remark_text (''line one'' @ ''\<newline>'' @ ''line two'') = ''line one'' @ remark_indent @ remark_text ''line two''"
proof -
  have h: "CHR ''\<newline>'' \<notin> set ''line one''" by simp
  show ?thesis using remark_text_lines [OF h, of "''line two''"] h by simp
qed

text \<open>
  C25: type soundness of the row projector: on a rectangular range, the loops and
  the triple indexing return without a panic exactly when the sheet is well typed.
\<close>

theorem projector_type_sound:
  assumes "rectangular r"
  shows "(\<exists>ts. ok_bind (project_rows [] (header_cells hs r) r) collect_tuples = Inr ts) \<longleftrightarrow> wt_sheet hs r"
proof -
  have pr: "project_rows [] (header_cells hs r) r = Inr (fields_spec hs r)"
    using assms by (simp add: fields_spec_def project_rows_row_values sorted_header_cells rectangular_in_row)
  show ?thesis
  proof (cases "fields_spec hs r = [] \<or> 3 \<le> length (header_cells hs r)")
    case True
    then have "\<forall>x \<in> set (fields_spec hs r). 2 < length x"
      by (auto simp: fields_spec_length)
    with True assms pr show ?thesis by (simp add: wt_sheet_def collect_tuples_ok)
  next
    case False
    then obtain x zs where fs: "fields_spec hs r = x # zs"
      by (cases "fields_spec hs r") auto
    with False have short: "length x < 3"
      using fields_spec_length [of x hs r] by simp
    from collect_tuples_short [of "[]" x zs] short
    have "collect_tuples (fields_spec hs r) = Inl (Panic (IndexOutOfBounds (length x) (length x)))"
      by (simp add: fs)
    with False pr show ?thesis by (simp add: wt_sheet_def)
  qed
qed

theorem projector_type_sound_witness:
  "rectangular [[String ''##var'', String ''type'', String ''remark''], [String ''id'', String ''int'', String ''x'']] \<and>
   wt_sheet [''##var'', ''type'', ''remark''] [[String ''##var'', String ''type'', String ''remark''], [String ''id'', String ''int'', String ''x'']] \<and>
   (\<exists>ts. ok_bind (project_rows [] (header_cells [''##var'', ''type'', ''remark''] [[String ''##var'', String ''type'', String ''remark''], [String ''id'', String ''int'', String ''x'']])
      [[String ''##var'', String ''type'', String ''remark''], [String ''id'', String ''int'', String ''x'']]) collect_tuples = Inr ts)"
proof -
  have r: "rectangular [[String ''##var'', String ''type'', String ''remark''], [String ''id'', String ''int'', String ''x'']]"
    by (simp add: rectangular_def)
  have w: "wt_sheet [''##var'', ''type'', ''remark''] [[String ''##var'', String ''type'', String ''remark''], [String ''id'', String ''int'', String ''x'']]"
    using r by (simp add: wt_sheet_def header_cells_Cons)
  show ?thesis using projector_type_sound [OF r] r w by blast
qed

end
