(* ===== verification/Writer.thy ===== *)
theory Writer
  imports World
begin

text \<open>
  OutputWriter: lines 110--118 of \<^verbatim>\<open>handle_input\<close>. If the destination
  exists it is removed (\<open>unwrap\<close>: a failure panics), the file is created
  (\<open>unwrap\<close> again), the template is rendered (\<open>render().unwrap()\<close>, so a
  template error panics after the file has been truncated), the text is written
  (\<open>?\<close>: an error is returned) and the path is reported on standard output.
  The rendered text is passed as the template library's answer, \<open>None\<close> for a
  template error; rendering is pure, so passing its value is the same as calling
  it at line 117.
\<close>

text \<open>The UTF-8 bytes of the report prefix of line 118 (Chinese for "code generated successfully:").\<close>

definition success_prefix :: string where
  "success_prefix = map (char_of :: nat \<Rightarrow> char)
     [231, 148, 159, 230, 136, 144, 228, 187, 163, 231, 160, 129, 230, 136, 144, 229, 138, 159,
      239, 188, 154]"

definition write_output :: "path \<Rightarrow> string option \<Rightarrow> world \<Rightarrow> unit res \<times> world" where
  "write_output out rendered w =
     (case (if path_exists out w then remove_file out w else (Inr (), w)) of
        (r1, w1) \<Rightarrow>
          (case unwrap r1 of
             Inl f \<Rightarrow> (Inl f, w1)
           | Inr _ \<Rightarrow>
               (case file_create out w1 of
                  (r2, w2) \<Rightarrow>
                    (case unwrap r2 of
                       Inl f \<Rightarrow> (Inl f, w2)
                     | Inr _ \<Rightarrow>
                         (case rendered of
                            None \<Rightarrow> (Inl (Panic (Unwrap RenderError)), w2)
                          | Some text \<Rightarrow>
                              (case write_all out text w2 of
                                 (Inl e, w3) \<Rightarrow> (Inl (Err e), w3)
                               | (Inr _, w3) \<Rightarrow>
                                   (Inr (), println (LogLine (success_prefix @ out)) w3)))))))"

lemma write_output_cases:
  obtains (written) content where "out \<notin> denied w" "rendered = Some content"
    "write_output out rendered w =
       (Inr (), w\<lparr>files := (files w)(out \<mapsto> content), stdout := stdout w @ [LogLine (success_prefix @ out)]\<rparr>)"
  | (truncated) "out \<notin> denied w" "rendered = None"
    "write_output out rendered w = (Inl (Panic (Unwrap RenderError)), w\<lparr>files := (files w)(out \<mapsto> [])\<rparr>)"
  | (refused) "out \<in> denied w" "write_output out rendered w = (Inl (Panic (Unwrap (IoError out))), w)"
  by (cases "out \<in> denied w"; cases rendered)
     (auto simp: write_output_def path_exists_def remove_file_def file_create_def write_all_def
        println_def domIff)

lemma write_output_frame [frame_simps]:
  "q \<noteq> out \<Longrightarrow> files (snd (write_output out rendered w)) q = files w q"
  "denied (snd (write_output out rendered w)) = denied w"
  by (cases rule: write_output_cases [of out w rendered]; simp)+

text \<open>
  C7: a write that goes through leaves exactly the rendered text at the
  destination, whatever was there before, touches no other file and reports the
  path.
\<close>

theorem write_output_ok:
  "out \<notin> denied w \<Longrightarrow>
   write_output out (Some text) w =
     (Inr (), w\<lparr>files := (files w)(out \<mapsto> text),
                stdout := stdout w @ [LogLine (success_prefix @ out)]\<rparr>)"
  by (simp add: write_output_def path_exists_def remove_file_def file_create_def write_all_def
      println_def domIff)

theorem write_output_ok_witness:
  "''Code.cs'' \<notin> denied \<lparr>files = [''Code.cs'' \<mapsto> ''old''], denied = {}, stdout = []\<rparr> \<and>
   write_output ''Code.cs'' (Some ''new'') \<lparr>files = [''Code.cs'' \<mapsto> ''old''], denied = {}, stdout = []\<rparr> =
     (Inr (), \<lparr>files = [''Code.cs'' \<mapsto> ''new''], denied = {},
               stdout = [LogLine (success_prefix @ ''Code.cs'')]\<rparr>)"
  using write_output_ok [of "''Code.cs''" "\<lparr>files = [''Code.cs'' \<mapsto> ''old''], denied = {}, stdout = []\<rparr>" "''new''"]
  by simp

text \<open>
  C8: a template error is raised after the destination has been truncated: the
  previous output is lost and an empty file is left behind.
\<close>

theorem write_output_no_template:
  "out \<notin> denied w \<Longrightarrow>
   write_output out None w = (Inl (Panic (Unwrap RenderError)), w\<lparr>files := (files w)(out \<mapsto> [])\<rparr>)"
  by (simp add: write_output_def path_exists_def remove_file_def file_create_def domIff)

theorem write_output_no_template_witness:
  "''Code.cs'' \<notin> denied \<lparr>files = [''Code.cs'' \<mapsto> ''old''], denied = {}, stdout = []\<rparr> \<and>
   write_output ''Code.cs'' None \<lparr>files = [''Code.cs'' \<mapsto> ''old''], denied = {}, stdout = []\<rparr> =
     (Inl (Panic (Unwrap RenderError)), \<lparr>files = [''Code.cs'' \<mapsto> []], denied = {}, stdout = []\<rparr>)"
  using write_output_no_template [of "''Code.cs''" "\<lparr>files = [''Code.cs'' \<mapsto> ''old''], denied = {}, stdout = []\<rparr>"]
  by simp

text \<open>C19: a destination the OS refuses panics and leaves the world as it was.\<close>

theorem write_output_denied:
  "out \<in> denied w \<Longrightarrow> write_output out rendered w = (Inl (Panic (Unwrap (IoError out))), w)"
  by (simp add: write_output_def path_exists_def remove_file_def file_create_def)

theorem write_output_denied_witness:
  "''Code.cs'' \<in> denied \<lparr>files = Map.empty, denied = {''Code.cs''}, stdout = []\<rparr> \<and>
   write_output ''Code.cs'' (Some ''new'') \<lparr>files = Map.empty, denied = {''Code.cs''}, stdout = []\<rparr> =
     (Inl (Panic (Unwrap (IoError ''Code.cs''))), \<lparr>files = Map.empty, denied = {''Code.cs''}, stdout = []\<rparr>)"
  using write_output_denied [of "''Code.cs''" "\<lparr>files = Map.empty, denied = {''Code.cs''}, stdout = []\<rparr>"
      "Some ''new''"]
  by simp

text \<open>C20: writing the same output twice leaves the same files as writing it once.\<close>

theorem write_output_idempotent:
  "files (snd (write_output out rendered (snd (write_output out rendered w)))) =
   files (snd (write_output out rendered w))"
proof (cases rule: write_output_cases [of out w rendered])
  case (written content)
  then show ?thesis
    by (cases rule: write_output_cases [of out "snd (write_output out rendered w)" rendered]) simp_all
next
  case truncated
  then show ?thesis
    by (cases rule: write_output_cases [of out "snd (write_output out rendered w)" rendered]) simp_all
next
  case refused
  then show ?thesis by simp
qed

end
