(* ===== verification/Job.thy ===== *)
theory Job
  imports Projector Writer
begin

text \<open>
  JobLoader and the driver: \<open>load_input_from_json\<close> (lines 44--52),
  \<open>handle_input\<close> (lines 54--121) composed from the SheetExtractor, the
  RowProjector and the OutputWriter, and \<open>gen_code\<close> (lines 33--42), whose
  loop runs the jobs in order and aborts the run at the first failing one. The
  loop is also given as an inductive step relation over a phase and the world,
  with the invariants of the run proved by rule induction.
\<close>

definition inputs_json :: path where
  "inputs_json = ''inputs.json''"

definition load_input_from_json :: "libs \<Rightarrow> world \<Rightarrow> error + input list" where
  "load_input_from_json L w =
     ok_bind (read_to_string inputs_json w)
       (\<lambda>json_data. case parse_inputs L json_data of None \<Rightarrow> Inl JsonError | Some inputs \<Rightarrow> Inr inputs)"

text \<open>Lines 104--108.\<close>

definition code_template_of :: "input \<Rightarrow> field_tuple list \<Rightarrow> code_template" where
  "code_template_of inp tuples_vec =
     \<lparr>template_namespace = namespace inp, classname = class_name inp, tuples = tuples_vec\<rparr>"

text \<open>
  Lines 54--102: the read-only part of \<open>handle_input\<close>, up to the triples;
  it does not change the world.
\<close>

definition extract_tuples :: "libs \<Rightarrow> input \<Rightarrow> world \<Rightarrow> field_tuple list res" where
  "extract_tuples L inp w =
     (case open_workbook L (in_path inp) w of
        Inl e \<Rightarrow> Inl (Err e)
      | Inr excel \<Rightarrow>
          (case worksheet_range excel (work_sheet_name inp) of
             Inl e \<Rightarrow> Inl (Err e)
           | Inr sheet_range \<Rightarrow>
               ok_bind (project_rows [] (header_cells (headers inp) sheet_range) sheet_range) collect_tuples))"

definition handle_input :: "libs \<Rightarrow> input \<Rightarrow> world \<Rightarrow> unit res \<times> world" where
  "handle_input L inp w =
     (case extract_tuples L inp w of
        Inl f \<Rightarrow> (Inl f, w)
      | Inr tuples_vec \<Rightarrow>
          write_output (out_path inp) (render L (code_template_of inp tuples_vec)) w)"

text \<open>Lines 39--41: \<open>for input in inputs { handle_input(input).unwrap(); }\<close>.\<close>

fun run_inputs :: "libs \<Rightarrow> input list \<Rightarrow> world \<Rightarrow> unit res \<times> world" where
  "run_inputs L [] w = (Inr (), w)"
| "run_inputs L (inp # inputs) w =
     (case handle_input L inp w of
        (r, w') \<Rightarrow> (case unwrap_res r of Inl f \<Rightarrow> (Inl f, w') | Inr _ \<Rightarrow> run_inputs L inputs w'))"

definition gen_code :: "libs \<Rightarrow> world \<Rightarrow> unit res \<times> world" where
  "gen_code L w =
     (case unwrap (load_input_from_json L w) of
        Inl f \<Rightarrow> (Inl f, w)
      | Inr inputs \<Rightarrow>
          if length inputs = 0 then (Inr (), w)
          else run_inputs L inputs (println (LogInputs inputs) w))"

text \<open>
  Lines 123--129: the test module. Its one test calls \<open>gen_code\<close> in the working
  directory; a Rust test passes when its body returns without a panic.
\<close>

definition test_gen_code :: "libs \<Rightarrow> world \<Rightarrow> bool" where
  "test_gen_code L w = (case fst (gen_code L w) of Inr _ \<Rightarrow> True | Inl _ \<Rightarrow> False)"

subsection \<open>The job loop as a step relation\<close>

text \<open>
  A run is in one of four phases: before loading the job list, running the jobs
  that remain, finished, or aborted by a panic.
\<close>

datatype phase = Start | Running "input list" | Done | Aborted panic

inductive gen_step :: "libs \<Rightarrow> phase \<times> world \<Rightarrow> phase \<times> world \<Rightarrow> bool" where
  load_failed: "load_input_from_json L w = Inl e \<Longrightarrow> gen_step L (Start, w) (Aborted (Unwrap e), w)"
| load_empty: "load_input_from_json L w = Inr [] \<Longrightarrow> gen_step L (Start, w) (Done, w)"
| load_jobs: "load_input_from_json L w = Inr inputs \<Longrightarrow> inputs \<noteq> [] \<Longrightarrow>
     gen_step L (Start, w) (Running inputs, println (LogInputs inputs) w)"
| job_done: "handle_input L inp w = (Inr (), w') \<Longrightarrow>
     gen_step L (Running (inp # inputs), w) (Running inputs, w')"
| job_failed: "handle_input L inp w = (r, w') \<Longrightarrow> unwrap_res r = Inl (Panic p) \<Longrightarrow>
     gen_step L (Running (inp # inputs), w) (Aborted p, w')"
| all_done: "gen_step L (Running [], w) (Done, w)"

text \<open>The states a run reaches from a world, by steps of the relation.\<close>

inductive reaches :: "libs \<Rightarrow> world \<Rightarrow> phase \<times> world \<Rightarrow> bool" where
  init: "reaches L w0 (Start, w0)"
| step: "reaches L w0 s \<Longrightarrow> gen_step L s t \<Longrightarrow> reaches L w0 t"

text \<open>The job list a run loads from a world, empty when loading fails.\<close>

definition loaded_jobs :: "libs \<Rightarrow> world \<Rightarrow> input list" where
  "loaded_jobs L w = (case load_input_from_json L w of Inl _ \<Rightarrow> [] | Inr inputs \<Rightarrow> inputs)"

text \<open>
  The invariant of a run from \<open>w0\<close>: the start state is \<open>w0\<close> itself, the
  denied paths never change, files change only at the output paths of the loaded
  jobs, and the jobs that remain are loaded jobs.
\<close>

definition run_inv :: "libs \<Rightarrow> world \<Rightarrow> phase \<times> world \<Rightarrow> bool" where
  "run_inv L w0 s =
     (case s of (ph, w) \<Rightarrow>
        (ph = Start \<longrightarrow> w = w0) \<and> denied w = denied w0 \<and>
        (\<forall>q. q \<notin> out_path ` set (loaded_jobs L w0) \<longrightarrow> files w q = files w0 q) \<and>
        (\<forall>inputs. ph = Running inputs \<longrightarrow> set inputs \<subseteq> set (loaded_jobs L w0)))"

subsection \<open>A concrete configuration\<close>

text \<open>
  The job of the specification's example: a sheet whose header row is
  \<open>##var | type | remark\<close> and one data row \<open>id | int | the identifier\<close>; the
  template library is replaced by a renderer that lists the field names.
\<close>

definition demo_job :: input where
  "demo_job = \<lparr>headers = [''##var'', ''type'', ''remark''], work_sheet_name = ''Sheet1'',
     class_name = ''Code'', in_path = ''code.xlsx'', out_path = ''Code.cs'', namespace = ''Game''\<rparr>"

definition demo_range :: range where
  "demo_range = [[String ''##var'', String ''type'', String ''remark''],
                 [String ''id'', String ''int'', String ''the identifier'']]"

definition demo_libs :: libs where
  "demo_libs = \<lparr>parse_inputs =
       (\<lambda>s. if s = ''[job]'' then Some [demo_job] else if s = ''[]'' then Some [] else None),
     parse_xlsx = (\<lambda>s. if s = ''xlsx'' then Some [(''Sheet1'', demo_range)] else None),
     render = (\<lambda>t. Some (concat (map (\<lambda>(a, b, c). b) (tuples t))))\<rparr>"

definition demo_world :: world where
  "demo_world = \<lparr>files = [''inputs.json'' \<mapsto> ''[job]'', ''code.xlsx'' \<mapsto> ''xlsx''],
     denied = {}, stdout = []\<rparr>"

subsection \<open>Effects of one job\<close>

lemma demo_load: "load_input_from_json demo_libs demo_world = Inr [demo_job]"
  by (simp add: load_input_from_json_def read_to_string_def inputs_json_def demo_libs_def demo_world_def)

lemma demo_extract:
  "files w = files demo_world \<Longrightarrow>
   extract_tuples demo_libs demo_job w = Inr [(''string'', ''int'', ''the identifier'')]"
  by (simp add: extract_tuples_def open_workbook_def read_to_string_def worksheet_range_def demo_libs_def
     demo_world_def demo_job_def demo_range_def header_cells_Cons remark_text_def remark_indent_def
     to_tuple_def upt_rec)

lemma handle_input_failed_extract:
  "extract_tuples L inp w = Inl f \<Longrightarrow> handle_input L inp w = (Inl f, w)"
  by (simp add: handle_input_def)

lemma handle_input_extracted:
  "extract_tuples L inp w = Inr tv \<Longrightarrow>
   handle_input L inp w = write_output (out_path inp) (render L (code_template_of inp tv)) w"
  by (simp add: handle_input_def)

text \<open>
  The four ways a job ends, each with the world it leaves: the extraction fails
  and nothing changes, or the writer's three outcomes on the extracted triples.
\<close>

lemma handle_input_cases:
  obtains (failed) f where "extract_tuples L inp w = Inl f" "handle_input L inp w = (Inl f, w)"
  | (written) tv content where "extract_tuples L inp w = Inr tv" "out_path inp \<notin> denied w"
    "render L (code_template_of inp tv) = Some content"
    "handle_input L inp w = (Inr (), w\<lparr>files := (files w)(out_path inp \<mapsto> content),
       stdout := stdout w @ [LogLine (success_prefix @ out_path inp)]\<rparr>)"
  | (truncated) tv where "extract_tuples L inp w = Inr tv" "out_path inp \<notin> denied w"
    "render L (code_template_of inp tv) = None"
    "handle_input L inp w = (Inl (Panic (Unwrap RenderError)), w\<lparr>files := (files w)(out_path inp \<mapsto> [])\<rparr>)"
  | (refused) tv where "extract_tuples L inp w = Inr tv" "out_path inp \<in> denied w"
    "handle_input L inp w = (Inl (Panic (Unwrap (IoError (out_path inp)))), w)"
proof (cases "extract_tuples L inp w")
  case (Inl f)
  then show ?thesis using failed by (simp add: handle_input_failed_extract)
next
  case (Inr tv)
  then show ?thesis
    by (cases rule: write_output_cases [of "out_path inp" w "render L (code_template_of inp tv)"])
       (auto intro: written truncated refused simp: handle_input_extracted)
qed

lemma handle_input_written:
  "extract_tuples L inp w = Inr tv \<Longrightarrow> out_path inp \<notin> denied w \<Longrightarrow>
   render L (code_template_of inp tv) = Some content \<Longrightarrow>
   handle_input L inp w = (Inr (), w\<lparr>files := (files w)(out_path inp \<mapsto> content),
     stdout := stdout w @ [LogLine (success_prefix @ out_path inp)]\<rparr>)"
  by (cases rule: handle_input_cases [of L inp w]) simp_all

lemma demo_handle:
  assumes "files w = files demo_world" "''Code.cs'' \<notin> denied w"
  shows "handle_input demo_libs demo_job w =
     (Inr (), w\<lparr>files := (files w)(''Code.cs'' \<mapsto> ''int''),
        stdout := stdout w @ [LogLine (success_prefix @ ''Code.cs'')]\<rparr>)"
proof -
  have o: "out_path demo_job = ''Code.cs''" by (simp add: demo_job_def)
  have r: "render demo_libs (code_template_of demo_job [(''string'', ''int'', ''the identifier'')]) = Some ''int''"
    by (simp add: demo_libs_def code_template_of_def)
  show ?thesis
    using assms by (simp add: demo_extract handle_input_written o r)
qed

lemma demo_run:
  "gen_code demo_libs demo_world =
     (Inr (), demo_world\<lparr>files := (files demo_world)(''Code.cs'' \<mapsto> ''int''),
        stdout := [LogInputs [demo_job], LogLine (success_prefix @ ''Code.cs'')]\<rparr>)"
proof -
  have d: "''Code.cs'' \<notin> denied demo_world" "stdout demo_world = []" by (simp_all add: demo_world_def)
  show ?thesis
    by (simp add: gen_code_def demo_load println_def demo_handle d)
qed

lemma handle_input_frame [frame_simps]:
  "q \<noteq> out_path inp \<Longrightarrow> files (snd (handle_input L inp w)) q = files w q"
  "denied (snd (handle_input L inp w)) = denied w"
  by (simp_all add: handle_input_def write_output_frame split: sum.split)

lemma handle_input_ok_stdout:
  "handle_input L inp w = (Inr (), w') \<Longrightarrow> stdout w' = stdout w @ [LogLine (success_prefix @ out_path inp)]"
  by (cases rule: handle_input_cases [of L inp w]) auto

lemma run_inv_job:
  assumes inv: "run_inv L w0 (Running (inp # inputs), w)"
    and w': "w' = snd (handle_input L inp w)"
    and ph: "ph = Running inputs \<or> ph = Aborted p"
  shows "run_inv L w0 (ph, w')"
proof -
  from inv have inp: "inp \<in> set (loaded_jobs L w0)" by (simp add: run_inv_def)
  have "files w' q = files w0 q" if q: "q \<notin> out_path ` set (loaded_jobs L w0)" for q
  proof -
    from q inp have "q \<noteq> out_path inp" by auto
    with w' have "files w' q = files w q" by (simp add: handle_input_frame)
    with q inv show ?thesis by (simp add: run_inv_def)
  qed
  with inv w' ph show ?thesis by (auto simp: run_inv_def handle_input_frame)
qed

lemma gen_step_run_inv: "gen_step L s t \<Longrightarrow> run_inv L w0 s \<Longrightarrow> run_inv L w0 t"
proof (induction rule: gen_step.induct)
  case (load_jobs L w inputs)
  then show ?case by (auto simp: run_inv_def loaded_jobs_def println_def)
next
  case (job_done L inp w w' inputs)
  then show ?case by (auto intro: run_inv_job)
next
  case (job_failed L inp w r w' p inputs)
  then show ?case by (auto intro: run_inv_job)
qed (auto simp: run_inv_def)

lemma reaches_run_inv: "reaches L w0 s \<Longrightarrow> run_inv L w0 s"
proof (induction rule: reaches.induct)
  case init
  then show ?case by (simp add: run_inv_def)
next
  case (step s t)
  then show ?case by (blast intro: gen_step_run_inv)
qed

text \<open>
  C9: in every state a run reaches, the denied paths are those of the start and
  every file outside the output paths of the loaded jobs is untouched.
\<close>

theorem reaches_frame:
  "reaches L w0 (ph, w) \<Longrightarrow> q \<notin> out_path ` set (loaded_jobs L w0) \<Longrightarrow>
   files w q = files w0 q \<and> denied w = denied w0"
  using reaches_run_inv [of L w0 "(ph, w)"] by (simp add: run_inv_def)

theorem reaches_frame_witness:
  "reaches demo_libs demo_world (Start, demo_world) \<and>
   ''code.xlsx'' \<notin> out_path ` set (loaded_jobs demo_libs demo_world) \<and>
   files demo_world ''code.xlsx'' = files demo_world ''code.xlsx'' \<and> denied demo_world = denied demo_world"
proof -
  have r: "reaches demo_libs demo_world (Start, demo_world)" by (rule reaches.init)
  have q: "''code.xlsx'' \<notin> out_path ` set (loaded_jobs demo_libs demo_world)"
    by (simp add: loaded_jobs_def load_input_from_json_def read_to_string_def inputs_json_def
        demo_world_def demo_libs_def demo_job_def)
  show ?thesis using reaches_frame [OF r q] r q by simp
qed


text \<open>C11: with no configured jobs the run succeeds and touches nothing.\<close>

theorem gen_code_no_jobs: "load_input_from_json L w = Inr [] \<Longrightarrow> gen_code L w = (Inr (), w)"
  by (simp add: gen_code_def)

theorem gen_code_no_jobs_witness:
  "load_input_from_json demo_libs (demo_world\<lparr>files := [''inputs.json'' \<mapsto> ''[]'']\<rparr>) = Inr [] \<and>
   gen_code demo_libs (demo_world\<lparr>files := [''inputs.json'' \<mapsto> ''[]'']\<rparr>) =
     (Inr (), demo_world\<lparr>files := [''inputs.json'' \<mapsto> ''[]'']\<rparr>)"
proof -
  have h: "load_input_from_json demo_libs (demo_world\<lparr>files := [''inputs.json'' \<mapsto> ''[]'']\<rparr>) = Inr []"
    by (simp add: load_input_from_json_def read_to_string_def inputs_json_def demo_libs_def)
  show ?thesis using gen_code_no_jobs [OF h] h by simp
qed

text \<open>
  C12: a missing or undecodable job list panics before any job runs, with the
  world unchanged.
\<close>

theorem gen_code_load_error:
  "load_input_from_json L w = Inl e \<Longrightarrow> gen_code L w = (Inl (Panic (Unwrap e)), w)"
  by (simp add: gen_code_def)

theorem gen_code_load_error_witness:
  "load_input_from_json demo_libs (demo_world\<lparr>files := [''inputs.json'' \<mapsto> ''{}'']\<rparr>) = Inl JsonError \<and>
   gen_code demo_libs (demo_world\<lparr>files := [''inputs.json'' \<mapsto> ''{}'']\<rparr>) =
     (Inl (Panic (Unwrap JsonError)), demo_world\<lparr>files := [''inputs.json'' \<mapsto> ''{}'']\<rparr>)"
proof -
  have h: "load_input_from_json demo_libs (demo_world\<lparr>files := [''inputs.json'' \<mapsto> ''{}'']\<rparr>) = Inl JsonError"
    by (simp add: load_input_from_json_def read_to_string_def inputs_json_def demo_libs_def)
  show ?thesis using gen_code_load_error [OF h] h by simp
qed

lemma run_inputs_stdout:
  "run_inputs L inputs w = (Inr (), w') \<Longrightarrow>
   stdout w' = stdout w @ map (\<lambda>i. LogLine (success_prefix @ out_path i)) inputs"
proof (induction inputs arbitrary: w)
  case Nil
  then show ?case by simp
next
  case (Cons inp inputs)
  obtain r1 w1 where h: "handle_input L inp w = (r1, w1)" by fastforce
  with Cons.prems have "r1 = Inr ()" and rest: "run_inputs L inputs w1 = (Inr (), w')"
    by (auto elim: unwrap_res.elims split: sum.splits)
  with h have "stdout w1 = stdout w @ [LogLine (success_prefix @ out_path inp)]"
    by (simp add: handle_input_ok_stdout)
  with Cons.IH [OF rest] show ?case by simp
qed

text \<open>
  C13: a run that returns normally has printed the job list and then one report
  line per job, naming its output path, in job order.
\<close>

theorem gen_code_stdout:
  "gen_code L w = (Inr (), w') \<Longrightarrow> load_input_from_json L w = Inr inputs \<Longrightarrow> inputs \<noteq> [] \<Longrightarrow>
   stdout w' = stdout w @ LogInputs inputs # map (\<lambda>i. LogLine (success_prefix @ out_path i)) inputs"
  by (auto simp: gen_code_def println_def dest: run_inputs_stdout)

theorem gen_code_stdout_witness:
  "gen_code demo_libs demo_world =
     (Inr (), demo_world\<lparr>files := (files demo_world)(''Code.cs'' \<mapsto> ''int''),
        stdout := [LogInputs [demo_job], LogLine (success_prefix @ ''Code.cs'')]\<rparr>) \<and>
   load_input_from_json demo_libs demo_world = Inr [demo_job] \<and> [demo_job] \<noteq> [] \<and>
   [LogInputs [demo_job], LogLine (success_prefix @ ''Code.cs'')] =
     stdout demo_world @ LogInputs [demo_job] #
       map (\<lambda>i. LogLine (success_prefix @ out_path i)) [demo_job]"
  using gen_code_stdout [OF demo_run demo_load] demo_run demo_load by simp

end
