(* ===== verification/Rerun.thy ===== *)
theory Rerun
  imports Job
begin

text \<open>
  The file effect of whole runs of the job loop (\<open>run_inputs\<close>, lines 39--41):
  what one job leaves at its output path as a function of the files it reads
  (\<open>job_write\<close>), that two runs which agree on those files write the same
  outputs (\<open>run_inputs_same_input\<close>), and that a successful run applies the jobs'
  writes to the file map in job order, so the last job wins on a shared output path.
\<close>

text \<open>
  What a job leaves at its output path: nothing when it fails before writing or
  the path is refused, the rendered text, or the empty file a template error
  leaves behind.
\<close>

definition job_write :: "libs \<Rightarrow> input \<Rightarrow> world \<Rightarrow> string option" where
  "job_write L inp w =
     (case extract_tuples L inp w of
        Inl _ \<Rightarrow> None
      | Inr tv \<Rightarrow>
          if out_path inp \<in> denied w then None
          else Some (case render L (code_template_of inp tv) of None \<Rightarrow> [] | Some t \<Rightarrow> t))"

text \<open>
  Two runs, from \<open>u\<close> to \<open>u'\<close> and from \<open>v\<close> to \<open>v'\<close>, either leave
  a path as each found it or leave the same content there.
\<close>

definition same_or_kept :: "world \<Rightarrow> world \<Rightarrow> world \<Rightarrow> world \<Rightarrow> bool" where
  "same_or_kept u u' v v' \<longleftrightarrow>
     (\<forall>q. (files u' q = files u q \<and> files v' q = files v q) \<or> files u' q = files v' q)"

text \<open>
  The file map after one job, seen from a reference world \<open>w\<close>: the job's write
  at its output path, as in \<open>(lookup m)(a := Some b)\<close>.
\<close>

definition apply_write :: "libs \<Rightarrow> world \<Rightarrow> input \<Rightarrow> (path \<rightharpoonup> string) \<Rightarrow> (path \<rightharpoonup> string)" where
  "apply_write L w inp m = (case job_write L inp w of None \<Rightarrow> m | Some c \<Rightarrow> m(out_path inp \<mapsto> c))"

text \<open>Runs that read the same inputs write the same outputs.\<close>

lemma handle_input_files:
  "files (snd (handle_input L inp w)) =
     (case job_write L inp w of None \<Rightarrow> files w | Some c \<Rightarrow> (files w)(out_path inp \<mapsto> c))"
  by (cases rule: handle_input_cases [of L inp w]) (simp_all add: job_write_def)

lemma handle_input_same_input:
  assumes "files u (in_path inp) = files v (in_path inp)" "denied u = denied v"
  shows "fst (handle_input L inp u) = fst (handle_input L inp v) \<and> job_write L inp u = job_write L inp v"
proof -
  from assms(1) have ex: "extract_tuples L inp u = extract_tuples L inp v"
    by (simp add: extract_tuples_def open_workbook_def read_to_string_def)
  with assms(2) show ?thesis
    by (cases rule: handle_input_cases [of L inp u]; cases rule: handle_input_cases [of L inp v])
       (simp_all add: job_write_def)
qed

lemma run_inputs_frame:
  "q \<notin> out_path ` set inputs \<Longrightarrow> files (snd (run_inputs L inputs w)) q = files w q \<and>
     denied (snd (run_inputs L inputs w)) = denied w"
proof (induction inputs arbitrary: w)
  case Nil
  then show ?case by simp
next
  case (Cons inp inputs)
  obtain r1 w1 where h: "handle_input L inp w = (r1, w1)" by fastforce
  from Cons.prems have "q \<noteq> out_path inp" by simp
  moreover from h have "w1 = snd (handle_input L inp w)" by simp
  ultimately have "files w1 q = files w q" "denied w1 = denied w"
    by (simp_all add: frame_simps)
  with Cons h show ?case by (simp split: sum.split)
qed

lemma same_or_kept_trans:
  "same_or_kept u u1 v v1 \<Longrightarrow> same_or_kept u1 u2 v1 v2 \<Longrightarrow> same_or_kept u u2 v v2"
  unfolding same_or_kept_def by metis

lemma run_inputs_same_input:
  assumes "\<forall>i \<in> set inputs. \<forall>j \<in> set inputs. out_path i \<noteq> in_path j"
    "\<forall>j \<in> set inputs. files u (in_path j) = files v (in_path j)" "denied u = denied v"
  shows "fst (run_inputs L inputs u) = fst (run_inputs L inputs v) \<and>
         same_or_kept u (snd (run_inputs L inputs u)) v (snd (run_inputs L inputs v))"
  using assms
proof (induction inputs arbitrary: u v)
  case Nil
  then show ?case by (simp add: same_or_kept_def)
next
  case (Cons inp inputs)
  obtain r1 u1 where hu: "handle_input L inp u = (r1, u1)" by fastforce
  obtain r2 v1 where hv: "handle_input L inp v = (r2, v1)" by fastforce
  from Cons.prems(2,3) have same: "fst (handle_input L inp u) = fst (handle_input L inp v)"
    "job_write L inp u = job_write L inp v"
    using handle_input_same_input [of u inp v L] by simp_all
  with hu hv have r: "r2 = r1" by simp
  have fu: "files u1 = (case job_write L inp u of None \<Rightarrow> files u | Some c \<Rightarrow> (files u)(out_path inp \<mapsto> c))"
    using hu handle_input_files [of L inp u] by simp
  have fv: "files v1 = (case job_write L inp u of None \<Rightarrow> files v | Some c \<Rightarrow> (files v)(out_path inp \<mapsto> c))"
    using hv handle_input_files [of L inp v] same(2) by simp
  have step: "same_or_kept u u1 v v1"
    using fu fv by (auto simp: same_or_kept_def split: option.split)
  show ?case
  proof (cases "unwrap_res r1")
    case (Inl f)
    with hu hv r step show ?thesis by simp
  next
    case (Inr x)
    from hu hv have du: "denied u1 = denied u" and dv: "denied v1 = denied v"
      using handle_input_frame(2) [of L inp u] handle_input_frame(2) [of L inp v] by simp_all
    have "files u1 (in_path j) = files v1 (in_path j)" if j: "j \<in> set inputs" for j
    proof -
      from Cons.prems(1) j have "in_path j \<noteq> out_path inp" by auto
      with Cons.prems(2) j fu fv show ?thesis by (simp split: option.split)
    qed
    with Cons.prems(1,3) du dv have
      "fst (run_inputs L inputs u1) = fst (run_inputs L inputs v1) \<and>
       same_or_kept u1 (snd (run_inputs L inputs u1)) v1 (snd (run_inputs L inputs v1))"
      by (intro Cons.IH) auto
    with hu hv r Inr step show ?thesis by (auto intro: same_or_kept_trans)
  qed
qed

text \<open>
  C27: jobs run in order and each replaces its output file: when no job reads
  another's output and the run succeeds, the files it leaves are the jobs' writes
  applied to the file map in job order, so on a shared output path the last job wins.
\<close>

theorem run_inputs_last_writer:
  assumes disj: "\<forall>i \<in> set inputs. \<forall>j \<in> set inputs. out_path i \<noteq> in_path j"
    and ok: "fst (run_inputs L inputs w) = Inr ()"
  shows "files (snd (run_inputs L inputs w)) = fold (apply_write L w) inputs (files w)"
proof -
  have "(\<forall>i \<in> set inputs. \<forall>j \<in> set inputs. out_path i \<noteq> in_path j) \<Longrightarrow>
      (\<forall>j \<in> set inputs. files u (in_path j) = files w (in_path j)) \<Longrightarrow> denied u = denied w \<Longrightarrow>
      fst (run_inputs L inputs u) = Inr () \<Longrightarrow>
      files (snd (run_inputs L inputs u)) = fold (apply_write L w) inputs (files u)" for u
  proof (induction inputs arbitrary: u)
    case Nil
    then show ?case by simp
  next
    case (Cons inp inputs)
    obtain r1 u1 where hu: "handle_input L inp u = (r1, u1)" by fastforce
    from Cons.prems(2,3) have "job_write L inp u = job_write L inp w"
      using handle_input_same_input [of u inp w L] by simp
    with hu have fu: "files u1 = apply_write L w inp (files u)"
      using handle_input_files [of L inp u] by (simp add: apply_write_def)
    from Cons.prems(4) hu obtain x where x: "unwrap_res r1 = Inr x"
      and rest: "fst (run_inputs L inputs u1) = Inr ()"
      by (auto split: sum.splits)
    from hu Cons.prems(3) have du: "denied u1 = denied w"
      using handle_input_frame(2) [of L inp u] by simp
    have "files u1 (in_path j) = files w (in_path j)" if j: "j \<in> set inputs" for j
    proof -
      from Cons.prems(1) j have "in_path j \<noteq> out_path inp" by auto
      with Cons.prems(2) j fu show ?thesis by (simp add: apply_write_def split: option.split)
    qed
    with Cons.prems(1) du rest have "files (snd (run_inputs L inputs u1)) = fold (apply_write L w) inputs (files u1)"
      by (intro Cons.IH) auto
    with hu x fu show ?case by simp
  qed
  from this [of w] disj ok show ?thesis by simp
qed

theorem run_inputs_last_writer_witness:
  "out_path demo_job \<noteq> in_path demo_job \<and> fst (run_inputs demo_libs [demo_job] demo_world) = Inr () \<and>
   files (snd (run_inputs demo_libs [demo_job] demo_world)) =
     fold (apply_write demo_libs demo_world) [demo_job] (files demo_world)"
proof -
  have d: "out_path demo_job \<noteq> in_path demo_job" by (simp add: demo_job_def)
  have "''Code.cs'' \<notin> denied demo_world" by (simp add: demo_world_def)
  then have ok: "fst (run_inputs demo_libs [demo_job] demo_world) = Inr ()" by (simp add: demo_handle)
  show ?thesis using run_inputs_last_writer [of "[demo_job]" demo_libs demo_world] d ok by simp
qed

end
