(* ===== verification/Spec2Isabelle.thy ===== *)
theory Spec2Isabelle
  imports Rerun
begin

text \<open>
  \<^bold>\<open>A model of \<^verbatim>\<open>gen_enum_cs\<close> (\<^verbatim>\<open>src/src/code.rs\<close>) and its correctness.\<close>

  The program reads a list of jobs from \<^verbatim>\<open>inputs.json\<close>; for each job it opens a
  spreadsheet, finds a worksheet, matches the job's three header names against the
  sheet's first row, turns every row into a list of strings (the name token
  \<open>"string"\<close>, then the cells of the other matched columns with line breaks
  continued as \<open>///\<close> comment lines), indexes each list into a triple, renders
  the triples through an \<open>askama\<close> template and replaces the output file.

  \<^bold>\<open>Theories and what they model.\<close>
  \<^item> \<open>Prelude\<close>: Rust's \<open>?\<close> (\<open>ok_bind\<close>), panicking indexing
    (\<open>nth_checked\<close>), \<open>str::starts_with\<close> (\<open>starts_with\<close>),
    \<open>str::replace\<close> (\<open>str_replace\<close>, a \<open>function\<close> whose termination is proved by
    the length of the scanned text) and the decimal \<open>Display\<close> of integers.
  \<^item> \<open>Data\<close>: the structs \<open>Code\<close>, \<open>CodeTemplate\<close>, \<open>Input\<close> (lines
    6--31) as records; \<open>calamine\<close>'s cell type and its \<open>to_string\<close>
    (\<open>data\<close>, \<open>data_to_string\<close>; \<open>i64\<close> cells are \<open>64 word\<close> read by
    \<open>sint\<close>); errors and panics (\<open>error\<close>, \<open>panic\<close>, \<open>failure\<close>,
    \<open>unwrap\<close>); and \<open>libs\<close>, the interface to the three libraries the program
    calls: JSON decoding, workbook decoding and template rendering. Every theorem
    holds for all library functions unless it assumes something of them.
  \<^item> \<open>World\<close>: the operating system as a record \<open>world\<close> (files by path, paths
    where deletion and creation are refused, standard output) and one operation per
    \<open>std\<close> call the program makes (\<open>read_to_string\<close>, \<open>Path::exists\<close>,
    \<open>remove_file\<close>, \<open>File::create\<close>, \<open>write_all\<close>, \<open>println!\<close>).
  \<^item> \<open>Sheet\<close> (SheetExtractor, lines 55--73): \<open>open_workbook\<close>,
    \<open>worksheet_range\<close> (every failure becomes the fixed message of line 61),
    \<open>range_headers\<close> and \<open>header_cells\<close>, the matched column positions.
  \<^item> \<open>Projector\<close> (RowProjector, lines 75--102): the inner loop
    \<open>collect_row\<close> and the outer loop \<open>project_rows\<close> with their accumulators,
    \<open>remark_text\<close> (line 89), \<open>to_tuple\<close>/\<open>collect_tuples\<close> (lines 99--102); and
    the declarative reading \<open>row_values\<close>/\<open>fields_spec\<close> the loops refine, and
    the typing of a sheet \<open>wt_sheet\<close> under which the indexing cannot panic.
  \<^item> \<open>Writer\<close> (OutputWriter, lines 110--118): \<open>write_output\<close>, with the
    template's answer passed in (rendering is pure, so its value stands for the call
    of line 117, which the source makes after truncating the file).
  \<^item> \<open>Job\<close> (JobLoader and driver, lines 33--121): \<open>load_input_from_json\<close>,
    \<open>extract_tuples\<close> (the read-only part of \<open>handle_input\<close>),
    \<open>handle_input\<close>, the job loop \<open>run_inputs\<close> and \<open>gen_code\<close>; the same
    loop as an inductive step relation \<open>gen_step\<close> over a \<open>phase\<close> and the world,
    with \<open>reaches\<close> its reachable states from a start world; the test module
    (lines 123--129) as \<open>test_gen_code\<close>, whether the test passes in a world.
  \<^item> \<open>Rerun\<close> (the file effect of whole runs of the loop of lines 39--41):
    \<open>job_write\<close>, the file a job leaves as a function of the files it reads,
    \<open>apply_write\<close>, that write as an update of the file map, and
    \<open>same_or_kept\<close>, the relation of two runs that agree on those files.
  \<^item> this theory: the properties that span components, and \<open>template_contract\<close>, the specification's
    contract of the renderer stated over the \<open>libs\<close> interface.

  \<^bold>\<open>What is proved.\<close>
  Header matching yields exactly the positions of the header row whose text is a
  declared name, in sheet order (\<open>header_cells_columns\<close>). The row loops refine
  the declarative reading on every rectangular range, all \<open>calamine\<close> ranges being
  rectangular (\<open>project_rows_refines\<close>). On top of that the development proves:
  \<^item> of the loops: the sentinel rule, the fixed name token, and the arity of
    triples (a short row panics, with its length as index);
  \<^item> of the comment continuation: it is undone by the reverse replacement and
    puts every continued line behind eight spaces and \<open>///\<close>;
  \<^item> type soundness of the projection: on a rectangular range it returns without
    a panic exactly when the sheet is well typed (\<open>projector_type_sound\<close>).
  A job on a well-formed sheet writes exactly the rendering of the declarative
  fields and nothing else (\<open>handle_input_refines\<close>). With a renderer that meets
  the specification's contract, that text is one declaration per surviving row, in
  row order (\<open>handle_input_declarations\<close>). A job whose names match no header
  column, an empty sheet included, writes a class with no field
  (\<open>handle_input_no_match\<close>). Its error paths leave the world unchanged. The
  writer's three outcomes are given with the exact world each leaves, including the
  loss of the previous output on a template error. The same outcomes for a whole job
  (a failed extraction, then the writer's three) form the case rule
  \<open>handle_input_cases\<close>, on which the job-level proofs rest.
  For the driver: jobs run in order and the first failure ends the run; rule
  induction over \<open>reaches\<close> shows that only the loaded jobs' output paths ever
  change, in finished and aborted runs alike. A successful run applies the jobs'
  writes to the file map in job order, so on a shared output path the last job wins
  (\<open>run_inputs_last_writer\<close>). Running the generator twice on unchanged inputs
  leaves the files of the first run (\<open>gen_code_idempotent\<close>) when no job writes
  the job list or a job's input.
  General theorems record where the code departs from its specification: the header
  row goes through the row loop (\<open>header_row_is_data\<close>), the sentinel and the name
  token apply to sheet column 0 only (\<open>sentinel_only_column0\<close>), and blank rows
  become fields (\<open>blank_row_field\<close>).

  \<^bold>\<open>Bounds and termination.\<close>
  There is no fuel: every loop of the program runs over a finite list (jobs, rows,
  matched columns), so each is a structurally recursive \<open>fun\<close>; \<open>str_replace\<close>
  terminates by the length of the remaining text. \<open>i64\<close> cells keep their width
  as \<open>64 word\<close> and are printed from their signed reading \<open>sint\<close>.

  \<^bold>\<open>Not modelled.\<close>
  The decoders of JSON and of the xlsx format and the template engine are library
  code, taken as the functions of \<open>libs\<close>; the template file \<^verbatim>\<open>code.txt\<close> is
  not part of the sources, so the layout of the generated text is not modelled. The
  text of \<open>f64\<close> cells is taken as given. \<open>{:#?}\<close> of the job list is logged as
  the value itself (the \<open>Debug\<close> formatting belongs to the standard library).
  The \<open>use\<close> lines 1--4 import the libraries and have no behaviour of their own.
  Write failures other than refused paths (a full disk) are not modelled.
  Simplifications of the operating system and the workbook reader: one set of
  refused paths serves deletion and creation alike; \<open>read_to_string\<close> does not
  check UTF-8; the workbook is decoded as a whole when it is opened, whereas
  \<open>calamine\<close> decodes a sheet in \<open>worksheet_range\<close>, so a corrupt sheet is an
  \<open>XlsxError\<close> here and the fixed message of line 61 in the source.
\<close>

text \<open>
  The specification's contract of the TemplateRenderer (section 4.4): the rendered
  text is a frame that depends on the namespace and the class name around one
  declaration per triple, in the order of the triples. The template file is not
  part of the sources; this is what the theorems below assume of it.
\<close>

definition template_contract ::
  "libs \<Rightarrow> (string \<Rightarrow> string \<Rightarrow> string) \<Rightarrow> (field_tuple \<Rightarrow> string) \<Rightarrow> (string \<Rightarrow> string \<Rightarrow> string) \<Rightarrow> bool" where
  "template_contract L before decl after \<longleftrightarrow>
     (\<forall>t. render L t = Some (before (template_namespace t) (classname t) @ concat (map decl (tuples t)) @
                              after (template_namespace t) (classname t)))"

lemma extract_tuples_sheet:
  assumes "files w (in_path inp) = Some bytes" "parse_xlsx L bytes = Some wb"
    "map_of wb (work_sheet_name inp) = Some r"
  shows "extract_tuples L inp w = ok_bind (project_rows [] (header_cells (headers inp) r) r) collect_tuples"
  using assms by (simp add: extract_tuples_def open_workbook_def read_to_string_def worksheet_range_def)

lemma extract_tuples_fields:
  assumes "files w (in_path inp) = Some bytes" "parse_xlsx L bytes = Some wb"
    "map_of wb (work_sheet_name inp) = Some r" "rectangular r"
    "\<forall>x \<in> set (fields_spec (headers inp) r). 2 < length x"
  shows "extract_tuples L inp w = Inr (map triple_of (fields_spec (headers inp) r))"
  using assms by (simp add: extract_tuples_sheet fields_spec_def project_rows_row_values
      sorted_header_cells rectangular_in_row collect_tuples_ok)

lemma demo_sheet:
  "fields_spec (headers demo_job) demo_range = [[''string'', ''int'', ''the identifier'']]"
  "files demo_world (in_path demo_job) = Some ''xlsx''"
  "parse_xlsx demo_libs ''xlsx'' = Some [(''Sheet1'', demo_range)]"
  "map_of [(''Sheet1'', demo_range)] (work_sheet_name demo_job) = Some demo_range"
  "rectangular demo_range"
  "out_path demo_job \<notin> denied demo_world"
  by (simp_all add: fields_spec_def demo_job_def demo_range_def header_cells_Cons upt_rec row_values_def
      is_sentinel_def cell_value_def remark_text_def remark_indent_def demo_world_def demo_libs_def rectangular_def)

text \<open>
  C1: on a rectangular sheet whose surviving rows have three values, a job writes
  exactly the rendering of the declarative fields to its output path, reports it,
  and changes nothing else.
\<close>

theorem handle_input_refines:
  assumes "files w (in_path inp) = Some bytes" "parse_xlsx L bytes = Some wb"
    "map_of wb (work_sheet_name inp) = Some r" "rectangular r"
    "\<forall>x \<in> set (fields_spec (headers inp) r). 2 < length x"
    "out_path inp \<notin> denied w"
    "render L (code_template_of inp (map triple_of (fields_spec (headers inp) r))) = Some text"
  shows "handle_input L inp w =
    (Inr (), w\<lparr>files := (files w)(out_path inp \<mapsto> text),
               stdout := stdout w @ [LogLine (success_prefix @ out_path inp)]\<rparr>)"
proof -
  from assms(1-5) have "extract_tuples L inp w = Inr (map triple_of (fields_spec (headers inp) r))"
    by (simp add: extract_tuples_def open_workbook_def read_to_string_def worksheet_range_def
        fields_spec_def project_rows_row_values sorted_header_cells rectangular_in_row collect_tuples_ok)
  from this assms(6,7) show ?thesis by (rule handle_input_written)
qed

theorem handle_input_refines_witness:
  "files demo_world (in_path demo_job) = Some ''xlsx'' \<and>
   parse_xlsx demo_libs ''xlsx'' = Some [(''Sheet1'', demo_range)] \<and>
   map_of [(''Sheet1'', demo_range)] (work_sheet_name demo_job) = Some demo_range \<and>
   rectangular demo_range \<and>
   fields_spec (headers demo_job) demo_range = [[''string'', ''int'', ''the identifier'']] \<and>
   out_path demo_job \<notin> denied demo_world \<and>
   render demo_libs (code_template_of demo_job (map triple_of (fields_spec (headers demo_job) demo_range))) =
     Some ''int'' \<and>
   handle_input demo_libs demo_job demo_world =
    (Inr (), demo_world\<lparr>files := (files demo_world)(out_path demo_job \<mapsto> ''int''),
               stdout := stdout demo_world @ [LogLine (success_prefix @ out_path demo_job)]\<rparr>)"
proof -
  note f = demo_sheet(1)
  have h5: "\<forall>x \<in> set (fields_spec (headers demo_job) demo_range). 2 < length x" by (simp add: f)
  have h7: "render demo_libs (code_template_of demo_job (map triple_of (fields_spec (headers demo_job) demo_range))) =
     Some ''int''"
    by (simp add: f demo_libs_def code_template_of_def triple_of_def)
  show ?thesis using handle_input_refines [OF demo_sheet(2-5) h5 demo_sheet(6) h7] demo_sheet h7 by simp
qed

text \<open>
  C6: a surviving row with fewer than three values (a job that declares, or a
  sheet that matches, fewer than three columns) aborts the job with an
  index panic before any file is touched; rows before it are not written either.
\<close>

theorem handle_input_malformed_row:
  assumes "files w (in_path inp) = Some bytes" "parse_xlsx L bytes = Some wb"
    "map_of wb (work_sheet_name inp) = Some r" "rectangular r"
    "fields_spec (headers inp) r = ys @ x # zs" "\<forall>y \<in> set ys. 2 < length y" "length x < 3"
  shows "handle_input L inp w = (Inl (Panic (IndexOutOfBounds (length x) (length x))), w)"
proof -
  from assms(1-7) have "extract_tuples L inp w = Inl (Panic (IndexOutOfBounds (length x) (length x)))"
    by (simp add: extract_tuples_sheet fields_spec_def [symmetric] project_rows_row_values
        sorted_header_cells rectangular_in_row collect_tuples_short)
  then show ?thesis by (rule handle_input_failed_extract)
qed

theorem handle_input_malformed_row_witness:
  "files demo_world (in_path (demo_job\<lparr>headers := [''##var'', ''type'']\<rparr>)) = Some ''xlsx'' \<and>
   parse_xlsx demo_libs ''xlsx'' = Some [(''Sheet1'', demo_range)] \<and>
   map_of [(''Sheet1'', demo_range)] (work_sheet_name (demo_job\<lparr>headers := [''##var'', ''type'']\<rparr>)) =
     Some demo_range \<and>
   rectangular demo_range \<and>
   fields_spec (headers (demo_job\<lparr>headers := [''##var'', ''type'']\<rparr>)) demo_range = [] @ [''string'', ''int''] # [] \<and>
   length [''string'', ''int''] < 3 \<and>
   handle_input demo_libs (demo_job\<lparr>headers := [''##var'', ''type'']\<rparr>) demo_world =
     (Inl (Panic (IndexOutOfBounds 2 2)), demo_world)"
proof -
  let ?j = "demo_job\<lparr>headers := [''##var'', ''type'']\<rparr>"
  have h1: "files demo_world (in_path ?j) = Some ''xlsx''" by (simp add: demo_world_def demo_job_def)
  have h2: "parse_xlsx demo_libs ''xlsx'' = Some [(''Sheet1'', demo_range)]" by (simp add: demo_libs_def)
  have h3: "map_of [(''Sheet1'', demo_range)] (work_sheet_name ?j) = Some demo_range"
    by (simp add: demo_job_def)
  have h4: "rectangular demo_range" by (simp add: rectangular_def demo_range_def)
  have h5: "fields_spec (headers ?j) demo_range = [] @ [''string'', ''int''] # []"
    by (simp add: fields_spec_def demo_range_def header_cells_Cons upt_rec row_values_def
        is_sentinel_def cell_value_def remark_text_def remark_indent_def)
  have h6: "\<forall>y \<in> set []. 2 < length (y :: string list)" by simp
  have h7: "length [''string'', ''int''] < 3" by simp
  show ?thesis using handle_input_malformed_row [OF h1 h2 h3 h4 h5 h6 h7] h1 h2 h3 h4 h5 by simp
qed

text \<open>
  C17: a job whose worksheet is absent fails with the fixed message
  \<open>Cannot find Sheet1\<close>, whatever the sheet's name, and changes nothing.
\<close>

theorem handle_input_sheet_missing:
  "files w (in_path inp) = Some bytes \<Longrightarrow> parse_xlsx L bytes = Some wb \<Longrightarrow>
   map_of wb (work_sheet_name inp) = None \<Longrightarrow>
   handle_input L inp w = (Inl (Err (CalamineMsg ''Cannot find Sheet1'')), w)"
  by (simp add: handle_input_def extract_tuples_def open_workbook_def read_to_string_def
      worksheet_range_def)

theorem handle_input_sheet_missing_witness:
  "files demo_world (in_path (demo_job\<lparr>work_sheet_name := ''Enums''\<rparr>)) = Some ''xlsx'' \<and>
   parse_xlsx demo_libs ''xlsx'' = Some [(''Sheet1'', demo_range)] \<and>
   map_of [(''Sheet1'', demo_range)] (work_sheet_name (demo_job\<lparr>work_sheet_name := ''Enums''\<rparr>)) = None \<and>
   handle_input demo_libs (demo_job\<lparr>work_sheet_name := ''Enums''\<rparr>) demo_world =
     (Inl (Err (CalamineMsg ''Cannot find Sheet1'')), demo_world)"
proof -
  let ?j = "demo_job\<lparr>work_sheet_name := ''Enums''\<rparr>"
  have h1: "files demo_world (in_path ?j) = Some ''xlsx''" by (simp add: demo_world_def demo_job_def)
  have h2: "parse_xlsx demo_libs ''xlsx'' = Some [(''Sheet1'', demo_range)]" by (simp add: demo_libs_def)
  have h3: "map_of [(''Sheet1'', demo_range)] (work_sheet_name ?j) = None" by simp
  show ?thesis using handle_input_sheet_missing [OF h1 h2 h3] h1 h2 h3 by simp
qed

text \<open>C18: a job whose workbook file is missing fails with an I/O error and changes nothing.\<close>

theorem handle_input_missing_workbook:
  "files w (in_path inp) = None \<Longrightarrow> handle_input L inp w = (Inl (Err (IoError (in_path inp))), w)"
  by (simp add: handle_input_def extract_tuples_def open_workbook_def read_to_string_def)

theorem handle_input_missing_workbook_witness:
  "files (demo_world\<lparr>files := Map.empty\<rparr>) (in_path demo_job) = None \<and>
   handle_input demo_libs demo_job (demo_world\<lparr>files := Map.empty\<rparr>) =
     (Inl (Err (IoError ''code.xlsx'')), demo_world\<lparr>files := Map.empty\<rparr>)"
proof -
  have h: "files (demo_world\<lparr>files := Map.empty\<rparr>) (in_path demo_job) = None" by simp
  show ?thesis using handle_input_missing_workbook [OF h] h by (simp add: demo_job_def)
qed

text \<open>
  C21: the header row goes through the row loop like any other row: unless its
  first cell is a sentinel, the first collected row is the header row's own
  values, so header names become a field.
\<close>

theorem header_row_is_data:
  assumes "rectangular (hdr # rows)" "header_cells hs (hdr # rows) \<noteq> []"
    "\<not> starts_with (data_to_string (hdr ! 0)) ''##''"
  shows "\<exists>cs. project_rows [] (header_cells hs (hdr # rows)) (hdr # rows) =
    Inr (map (cell_value hdr) (header_cells hs (hdr # rows)) # cs)"
proof -
  let ?hc = "header_cells hs (hdr # rows)"
  have "project_rows [] ?hc (hdr # rows) = Inr [x \<leftarrow> map (row_values ?hc) (hdr # rows). x \<noteq> []]"
    using assms(1) by (simp del: project_rows.simps add: project_rows_row_values sorted_header_cells rectangular_in_row)
  moreover from assms(3) have "row_values ?hc hdr = map (cell_value hdr) ?hc"
    by (simp add: row_values_def is_sentinel_def)
  ultimately show ?thesis using assms(2) by (simp del: project_rows.simps)
qed

theorem header_row_is_data_witness:
  "rectangular [[String ''var'', String ''type'', String ''remark''], [String ''id'', String ''int'', String ''x'']] \<and>
   header_cells [''var'', ''type'', ''remark''] [[String ''var'', String ''type'', String ''remark''], [String ''id'', String ''int'', String ''x'']] = [0, 1, 2] \<and>
   \<not> starts_with (data_to_string (String ''var'')) ''##'' \<and>
   (\<exists>cs. project_rows [] [0, 1, 2] [[String ''var'', String ''type'', String ''remark''], [String ''id'', String ''int'', String ''x'']] =
      Inr ([''string'', ''type'', ''remark''] # cs))"
proof -
  have r: "rectangular [[String ''var'', String ''type'', String ''remark''], [String ''id'', String ''int'', String ''x'']]"
    by (simp add: rectangular_def)
  have h: "header_cells [''var'', ''type'', ''remark''] [[String ''var'', String ''type'', String ''remark''], [String ''id'', String ''int'', String ''x'']] = [0, 1, 2]"
    by (simp add: header_cells_Cons upt_rec)
  have s: "\<not> starts_with (data_to_string ([String ''var'', String ''type'', String ''remark''] ! 0)) ''##''" by simp
  have n: "header_cells [''var'', ''type'', ''remark''] [[String ''var'', String ''type'', String ''remark''], [String ''id'', String ''int'', String ''x'']] \<noteq> []"
    using h by simp
  from header_row_is_data [OF r n s] h r s show ?thesis
    by (simp del: project_rows.simps add: cell_value_def remark_text_def remark_indent_def)
qed

text \<open>
  C22: the sentinel test and the name token apply to sheet column 0 only: when
  the matched columns do not include column 0, every row is kept, sentinel rows
  included, and each value is the formatted text of its cell.
\<close>

theorem sentinel_only_column0:
  assumes "rectangular r" "header_cells hs r \<noteq> []" "0 \<notin> set (header_cells hs r)"
  shows "project_rows [] (header_cells hs r) r =
    Inr (map (\<lambda>row. map (\<lambda>i. remark_text (data_to_string (row ! i))) (header_cells hs r)) r)"
proof -
  let ?hc = "header_cells hs r"
  have "0 < j" if "j \<in> set ?hc" for j
    using that assms(3) by (metis gr0I)
  then have pos: "\<forall>j \<in> set ?hc. 0 < j" by blast
  have "project_rows [] ?hc r = Inr [x \<leftarrow> map (row_values ?hc) r. x \<noteq> []]"
    using assms(1) by (simp add: project_rows_row_values sorted_header_cells rectangular_in_row)
  moreover have "row_values ?hc row = map (\<lambda>i. remark_text (data_to_string (row ! i))) ?hc" for row
    using pos by (auto simp: row_values_positive cell_value_def)
  ultimately show ?thesis using assms(2) by (simp add: comp_def)
qed

theorem sentinel_only_column0_witness:
  "rectangular [[String ''note'', String ''##var'', String ''type'', String ''remark''],
                [String ''a'', String ''##legend'', String ''x'', String ''y'']] \<and>
   header_cells [''##var'', ''type'', ''remark''] [[String ''note'', String ''##var'', String ''type'', String ''remark''],
                [String ''a'', String ''##legend'', String ''x'', String ''y'']] = [1, 2, 3] \<and>
   0 \<notin> set [1, 2, 3::nat] \<and>
   project_rows [] [1, 2, 3] [[String ''note'', String ''##var'', String ''type'', String ''remark''],
                [String ''a'', String ''##legend'', String ''x'', String ''y'']] =
     Inr [[''##var'', ''type'', ''remark''], [''##legend'', ''x'', ''y'']]"
proof -
  have r: "rectangular [[String ''note'', String ''##var'', String ''type'', String ''remark''],
                [String ''a'', String ''##legend'', String ''x'', String ''y'']]"
    by (simp add: rectangular_def)
  have h: "header_cells [''##var'', ''type'', ''remark''] [[String ''note'', String ''##var'', String ''type'', String ''remark''],
                [String ''a'', String ''##legend'', String ''x'', String ''y'']] = [1, 2, 3]"
    by (simp add: header_cells_Cons upt_rec)
  from sentinel_only_column0 [OF r] h r show ?thesis
    by (simp add: remark_text_def remark_indent_def)
qed

text \<open>
  C23: a blank row is not dropped: a row whose matched cells are all empty
  yields a field, with the name token and empty type and remark.
\<close>

theorem blank_row_field:
  assumes "rectangular r" "row \<in> set r" "header_cells hs r \<noteq> []"
    "\<forall>i \<in> set (header_cells hs r). row ! i = Empty"
  shows "\<exists>cs. project_rows [] (header_cells hs r) r = Inr cs \<and>
    map (\<lambda>i. if i = 0 then ''string'' else []) (header_cells hs r) \<in> set cs"
proof -
  let ?hc = "header_cells hs r"
  have "project_rows [] ?hc r = Inr [x \<leftarrow> map (row_values ?hc) r. x \<noteq> []]"
    using assms(1) by (simp add: project_rows_row_values sorted_header_cells rectangular_in_row)
  moreover have "\<not> is_sentinel ?hc row"
    using assms(3,4) by (cases ?hc) (auto simp: is_sentinel_def)
  then have "row_values ?hc row = map (\<lambda>i. if i = 0 then ''string'' else []) ?hc"
    using assms(4) by (auto simp: row_values_def cell_value_def remark_text_def)
  ultimately show ?thesis using assms(2,3) by (force simp del: project_rows.simps)
qed

theorem blank_row_field_witness:
  "rectangular [[String ''##var'', String ''type'', String ''remark''], [Empty, Empty, Empty]] \<and>
   [Empty, Empty, Empty] \<in> set [[String ''##var'', String ''type'', String ''remark''], [Empty, Empty, Empty]] \<and>
   header_cells [''##var'', ''type'', ''remark''] [[String ''##var'', String ''type'', String ''remark''], [Empty, Empty, Empty]] = [0, 1, 2] \<and>
   [Empty, Empty, Empty] ! 0 = Empty \<and> [Empty, Empty, Empty] ! 1 = Empty \<and> [Empty, Empty, Empty] ! 2 = Empty \<and>
   (\<exists>cs. project_rows [] [0, 1, 2] [[String ''##var'', String ''type'', String ''remark''], [Empty, Empty, Empty]] = Inr cs \<and>
      [''string'', [], []] \<in> set cs)"
proof -
  have r: "rectangular [[String ''##var'', String ''type'', String ''remark''], [Empty, Empty, Empty]]"
    by (simp add: rectangular_def)
  have h: "header_cells [''##var'', ''type'', ''remark''] [[String ''##var'', String ''type'', String ''remark''], [Empty, Empty, Empty]] = [0, 1, 2]"
    by (simp add: header_cells_Cons upt_rec)
  have m: "[Empty, Empty, Empty] \<in> set [[String ''##var'', String ''type'', String ''remark''], [Empty, Empty, Empty]]"
    by simp
  have n: "header_cells [''##var'', ''type'', ''remark''] [[String ''##var'', String ''type'', String ''remark''], [Empty, Empty, Empty]] \<noteq> []"
    using h by simp
  have e: "\<forall>i \<in> set (header_cells [''##var'', ''type'', ''remark''] [[String ''##var'', String ''type'', String ''remark''], [Empty, Empty, Empty]]).
      [Empty, Empty, Empty] ! i = Empty"
    using h by simp
  from blank_row_field [OF r m n e] h r show ?thesis by (simp del: project_rows.simps)
qed

text \<open>
  C24: running the generator a second time on unchanged inputs leaves exactly the
  files of the first run, provided no job writes the job list or the input of a
  job (the outputs of the first run are then read by nobody).
\<close>

theorem gen_code_idempotent:
  assumes io: "\<forall>i \<in> set (loaded_jobs L w).
    out_path i \<noteq> inputs_json \<and> (\<forall>j \<in> set (loaded_jobs L w). out_path i \<noteq> in_path j)"
  shows "files (snd (gen_code L (snd (gen_code L w)))) = files (snd (gen_code L w))"
proof (cases "load_input_from_json L w")
  case (Inl e)
  then show ?thesis by (simp add: gen_code_def)
next
  case (Inr inputs)
  show ?thesis
  proof (cases "inputs = []")
    case True
    with Inr show ?thesis by (simp add: gen_code_def)
  next
    case False
    let ?u = "println (LogInputs inputs) w"
    define w1 where "w1 = snd (run_inputs L inputs ?u)"
    let ?v = "println (LogInputs inputs) w1"
    from io Inr have outs: "inputs_json \<notin> out_path ` set inputs"
      and disj: "\<forall>i \<in> set inputs. \<forall>j \<in> set inputs. out_path i \<noteq> in_path j"
      by (auto simp: loaded_jobs_def)
    have g1: "snd (gen_code L w) = w1" using Inr False by (simp add: gen_code_def w1_def)
    from run_inputs_frame [OF outs] have "files w1 inputs_json = files w inputs_json" "denied w1 = denied w"
      by (simp_all add: w1_def println_def)
    then have "load_input_from_json L w1 = load_input_from_json L w"
      by (simp add: load_input_from_json_def read_to_string_def)
    with Inr False have g2: "gen_code L w1 = run_inputs L inputs ?v"
      by (simp add: gen_code_def)
    have ins: "\<forall>j \<in> set inputs. files ?u (in_path j) = files ?v (in_path j)"
    proof
      fix j assume "j \<in> set inputs"
      with disj have "in_path j \<notin> out_path ` set inputs" by (metis imageE)
      from run_inputs_frame [OF this] show "files ?u (in_path j) = files ?v (in_path j)"
        by (simp add: w1_def println_def)
    qed
    have den: "denied ?u = denied ?v"
      using \<open>denied w1 = denied w\<close> by (simp add: println_def)
    from run_inputs_same_input [OF disj ins den]
    have "same_or_kept ?u w1 ?v (snd (run_inputs L inputs ?v))"
      by (simp add: w1_def)
    then have "files (snd (run_inputs L inputs ?v)) = files w1"
      by (auto simp: same_or_kept_def println_def fun_eq_iff)
    with g1 g2 show ?thesis by simp
  qed
qed

theorem gen_code_idempotent_witness:
  "loaded_jobs demo_libs demo_world = [demo_job] \<and>
   out_path demo_job \<noteq> inputs_json \<and> out_path demo_job \<noteq> in_path demo_job \<and>
   files (snd (gen_code demo_libs (snd (gen_code demo_libs demo_world)))) =
   files (snd (gen_code demo_libs demo_world))"
proof -
  have l: "loaded_jobs demo_libs demo_world = [demo_job]" by (simp add: loaded_jobs_def demo_load)
  have o: "out_path demo_job \<noteq> inputs_json" "out_path demo_job \<noteq> in_path demo_job"
    by (simp_all add: demo_job_def inputs_json_def)
  have h: "\<forall>i \<in> set (loaded_jobs demo_libs demo_world).
    out_path i \<noteq> inputs_json \<and> (\<forall>j \<in> set (loaded_jobs demo_libs demo_world). out_path i \<noteq> in_path j)"
    using l o by simp
  show ?thesis using gen_code_idempotent [OF h] l o by simp
qed

text \<open>
  C26: with a template that meets the specification's contract, a job on a
  well-formed sheet writes one declaration per surviving row, in the order of the
  rows, between the frame of its namespace and class name.
\<close>

theorem handle_input_declarations:
  assumes "files w (in_path inp) = Some bytes" "parse_xlsx L bytes = Some wb"
    "map_of wb (work_sheet_name inp) = Some r" "rectangular r"
    "\<forall>x \<in> set (fields_spec (headers inp) r). 2 < length x"
    "out_path inp \<notin> denied w"
    "template_contract L before decl after"
  shows "files (snd (handle_input L inp w)) = (files w)(out_path inp \<mapsto>
      before (namespace inp) (class_name inp) @ concat (map (decl \<circ> triple_of) (fields_spec (headers inp) r)) @
      after (namespace inp) (class_name inp))"
proof -
  let ?ts = "map triple_of (fields_spec (headers inp) r)"
  from assms(1-5) have "extract_tuples L inp w = Inr ?ts" by (rule extract_tuples_fields)
  moreover from assms(7) have "render L (code_template_of inp ?ts) = Some (before (namespace inp) (class_name inp) @
      concat (map (decl \<circ> triple_of) (fields_spec (headers inp) r)) @ after (namespace inp) (class_name inp))"
    by (simp add: template_contract_def code_template_of_def)
  ultimately show ?thesis using assms(6) by (simp add: handle_input_written)
qed

theorem handle_input_declarations_witness:
  "files demo_world (in_path demo_job) = Some ''xlsx'' \<and>
   parse_xlsx demo_libs ''xlsx'' = Some [(''Sheet1'', demo_range)] \<and>
   map_of [(''Sheet1'', demo_range)] (work_sheet_name demo_job) = Some demo_range \<and>
   rectangular demo_range \<and>
   fields_spec (headers demo_job) demo_range = [[''string'', ''int'', ''the identifier'']] \<and>
   out_path demo_job \<notin> denied demo_world \<and>
   template_contract demo_libs (\<lambda>_ _. []) (\<lambda>(a, b, c). b) (\<lambda>_ _. []) \<and>
   files (snd (handle_input demo_libs demo_job demo_world)) = (files demo_world)(out_path demo_job \<mapsto> ''int'')"
proof -
  have c: "template_contract demo_libs (\<lambda>_ _. []) (\<lambda>(a, b, c). b) (\<lambda>_ _. [])"
    by (simp add: template_contract_def demo_libs_def)
  have h5: "\<forall>x \<in> set (fields_spec (headers demo_job) demo_range). 2 < length x"
    by (simp add: demo_sheet(1))
  show ?thesis
    using handle_input_declarations [OF demo_sheet(2-5) h5 demo_sheet(6) c] demo_sheet c
    by (simp add: triple_of_def)
qed

text \<open>
  C28: a job whose declared names match no header column (an empty sheet
  included) runs without error and writes the rendering of a class with no field:
  every row collects nothing and is dropped, whatever the shape of the rows.
\<close>

theorem handle_input_no_match:
  assumes "files w (in_path inp) = Some bytes" "parse_xlsx L bytes = Some wb"
    "map_of wb (work_sheet_name inp) = Some r" "header_cells (headers inp) r = []"
    "out_path inp \<notin> denied w" "render L (code_template_of inp []) = Some text"
  shows "handle_input L inp w =
    (Inr (), w\<lparr>files := (files w)(out_path inp \<mapsto> text),
               stdout := stdout w @ [LogLine (success_prefix @ out_path inp)]\<rparr>)"
proof -
  have "project_rows [] [] rows = Inr []" for rows :: range
    by (induction rows) simp_all
  with assms(1-4) have "extract_tuples L inp w = Inr []"
    by (simp add: extract_tuples_sheet)
  from this assms(5,6) show ?thesis by (rule handle_input_written)
qed

theorem handle_input_no_match_witness:
  "files demo_world (in_path demo_job) = Some ''xlsx'' \<and>
   parse_xlsx demo_libs ''xlsx'' = Some [(''Sheet1'', demo_range)] \<and>
   map_of [(''Sheet1'', demo_range)] (work_sheet_name demo_job) = Some demo_range \<and>
   header_cells (headers (demo_job\<lparr>headers := [''name'']\<rparr>)) demo_range = [] \<and>
   out_path demo_job \<notin> denied demo_world \<and>
   render demo_libs (code_template_of (demo_job\<lparr>headers := [''name'']\<rparr>) []) = Some [] \<and>
   handle_input demo_libs (demo_job\<lparr>headers := [''name'']\<rparr>) demo_world =
    (Inr (), demo_world\<lparr>files := (files demo_world)(out_path demo_job \<mapsto> []),
               stdout := stdout demo_world @ [LogLine (success_prefix @ out_path demo_job)]\<rparr>)"
proof -
  have h: "header_cells (headers (demo_job\<lparr>headers := [''name'']\<rparr>)) demo_range = []"
    by (simp add: demo_range_def header_cells_Cons upt_rec)
  have t: "render demo_libs (code_template_of (demo_job\<lparr>headers := [''name'']\<rparr>) []) = Some []"
    by (simp add: demo_libs_def code_template_of_def)
  have "files demo_world (in_path (demo_job\<lparr>headers := [''name'']\<rparr>)) = Some ''xlsx''"
    "map_of [(''Sheet1'', demo_range)] (work_sheet_name (demo_job\<lparr>headers := [''name'']\<rparr>)) = Some demo_range"
    "out_path (demo_job\<lparr>headers := [''name'']\<rparr>) \<notin> denied demo_world"
    using demo_sheet by simp_all
  from handle_input_no_match [OF this(1) demo_sheet(3) this(2) h this(3) t]
  show ?thesis using demo_sheet h t by simp
qed

end
